theory Spec2Isabelle
  imports Main "HOL-Library.Word"
begin

unbundle bit_operations_syntax

section \<open>The sFlow datagram decoder (package sflow)\<close>

text \<open>
  A shallow embedding of the decoder. A byte buffer (\<^verbatim>\<open>[]byte\<close>) is a list of 8-bit
  words, \<^verbatim>\<open>uint32\<close> is a 32-bit word, and \<^verbatim>\<open>len\<close> is \<^const>\<open>length\<close>. A method
  with a pointer receiver takes the receiver and returns it updated, together with the
  method's results; the result \<^verbatim>\<open>error\<close> is an \<open>error option\<close>, \<open>None\<close> being
  \<^verbatim>\<open>nil\<close>. An interface value that may be \<^verbatim>\<open>nil\<close> is an option as well. A nil
  byte slice and an empty one are both \<open>[]\<close>.
\<close>

subsection \<open>Bytes, slices and big-endian reads\<close>

type_synonym byte = "8 word"
type_synonym uint16 = "16 word"
type_synonym uint32 = "32 word"

text \<open>The two error values of the package: \<^verbatim>\<open>ErrTooShort\<close> and \<^verbatim>\<open>ErrOutOfBounds\<close>.\<close>

datatype error = ErrTooShort | ErrOutOfBounds

text \<open>
  The slice expression \<^verbatim>\<open>data[lo:hi]\<close>. Go panics when \<open>hi\<close> exceeds the capacity or
  \<open>lo > hi\<close>; every use below is behind a length check that excludes both, except the one
  in \<^verbatim>\<open>SampledHeader.Parse\<close>, where the panic is a branch of the model.
\<close>

definition reslice :: "byte list \<Rightarrow> nat \<Rightarrow> nat \<Rightarrow> byte list" where
  "reslice data lo hi = take (hi - lo) (drop lo data)"

text \<open>
  The builtin \<^verbatim>\<open>copy(dst, src)\<close>: the first \<open>min (len dst) (len src)\<close> elements of
  \<open>dst\<close> are overwritten, the length of \<open>dst\<close> stays.
\<close>

definition copy :: "byte list \<Rightarrow> byte list \<Rightarrow> byte list" where
  "copy dst src = take (length dst) src @ drop (length src) dst"

text \<open>\<^verbatim>\<open>binary.BigEndian.Uint32\<close> and \<^verbatim>\<open>Uint16\<close> of the standard library.\<close>

definition Uint32 :: "byte list \<Rightarrow> uint32" where
  "Uint32 b = ucast (b ! 3) OR push_bit 8 (ucast (b ! 2))
                OR push_bit 16 (ucast (b ! 1)) OR push_bit 24 (ucast (b ! 0))"

definition Uint16 :: "byte list \<Rightarrow> uint16" where
  "Uint16 b = ucast (b ! 1) OR push_bit 8 (ucast (b ! 0))"

text \<open>
  The conversion \<^verbatim>\<open>uint32(len(data))\<close>: \<^verbatim>\<open>len\<close> is an \<^verbatim>\<open>int\<close> (64 bits on the usual
  platforms), and the conversion keeps its low 32 bits.
\<close>

definition len32 :: "byte list \<Rightarrow> uint32" where
  "len32 data = of_nat (length data)"

subsection \<open>Format codes\<close>

definition FlowSampleType :: uint32 where "FlowSampleType = 1"
definition CounterSamplesType :: uint32 where "CounterSamplesType = 2"
definition FlowSampleExpandedType :: uint32 where "FlowSampleExpandedType = 3"
definition CountersSampleExpandedType :: uint32 where "CountersSampleExpandedType = 4"

definition SampledUnknownType :: uint32 where "SampledUnknownType = 0"
definition SampledHeaderType :: uint32 where "SampledHeaderType = 1"
definition SampledEthernetType :: uint32 where "SampledEthernetType = 2"
definition SampledIPV4Type :: uint32 where "SampledIPV4Type = 3"
definition SampledIPV6Type :: uint32 where "SampledIPV6Type = 4"

definition IfCountersType :: uint32 where "IfCountersType = 1"
definition EthernetCountersType :: uint32 where "EthernetCountersType = 2"
definition TokenringCountersType :: uint32 where "TokenringCountersType = 3"
definition VGCountersType :: uint32 where "VGCountersType = 4"
definition VlanCountersType :: uint32 where "VlanCountersType = 5"
definition ProcessorType :: uint32 where "ProcessorType = 1001"

subsection \<open>The datagram header and the envelope reader\<close>

record Header =
  Version :: uint32
  AddressType :: uint32
  AgentAddress :: "byte list"
  SubAgentID :: uint32
  SequenceNumber :: uint32
  SysUptime :: uint32
  NumSamples :: uint32

definition Header_Parse :: "Header \<Rightarrow> byte list \<Rightarrow> Header \<times> byte list \<times> error option" where
  "Header_Parse h data =
     (if length data < 28 then (h, [], Some ErrTooShort)
      else (h\<lparr>Version := Uint32 (reslice data 0 4),
              AddressType := Uint32 (reslice data 4 8),
              AgentAddress := copy (AgentAddress h) (reslice data 8 12),
              SubAgentID := Uint32 (reslice data 12 16),
              SequenceNumber := Uint32 (reslice data 16 20),
              SysUptime := Uint32 (reslice data 20 24),
              NumSamples := Uint32 (reslice data 24 28)\<rparr>,
            drop 28 data, None))"

record DataFormat =
  Format :: uint32
  Length :: uint32

text \<open>The composite literal \<^verbatim>\<open>DataFormat{}\<close>.\<close>

definition DataFormat_zero :: DataFormat where
  "DataFormat_zero = \<lparr>Format = 0, Length = 0\<rparr>"

definition DataFormat_Parse ::
  "DataFormat \<Rightarrow> byte list \<Rightarrow> DataFormat \<times> byte list \<times> error option" where
  "DataFormat_Parse h data =
     (if length data < 8 then (h, [], Some ErrTooShort)
      else let h' = h\<lparr>Format := Uint32 (reslice data 0 4),
                       Length := Uint32 (reslice data 4 8)\<rparr>
           in if len32 (drop 8 data) < Length h' then (h', [], Some ErrOutOfBounds)
              else (h', drop 8 data, None))"

subsection \<open>Flow records\<close>

record SampledHeader =
  Protocol :: uint32
  FrameLength :: uint32
  PayloadRemoved :: uint32
  Header :: "byte list"

record SampledEthernet =
  Length :: uint32
  SrcMac :: "byte list"
  DstMac :: "byte list"
  Type :: uint32

record SampledUnknown =
  Type :: uint32
  Data :: "byte list"

record SampledIPV4 =
  Length :: uint32
  Protocol :: uint32
  SrcIP :: "byte list"
  DstIP :: "byte list"
  SrcPort :: uint32
  DstPort :: uint32
  TCPFlags :: uint32
  ToS :: uint32

record SampledIPV6 =
  Length :: uint32
  Protocol :: uint32
  SrcIP :: "byte list"
  DstIP :: "byte list"
  SrcPort :: uint32
  DstPort :: uint32
  TCPFlags :: uint32
  ToS :: uint32

text \<open>
  The zero values that \<^verbatim>\<open>&SampledHeader{}\<close>, \<^verbatim>\<open>&SampledIPV4{}\<close>, ... allocate. The
  arrays \<^verbatim>\<open>[4]byte\<close>, \<^verbatim>\<open>[16]byte\<close> and \<^verbatim>\<open>mac.Mac\<close> (six bytes) are lists of
  that length.
\<close>

definition SampledHeader_zero :: SampledHeader where
  "SampledHeader_zero =
     \<lparr>SampledHeader.Protocol = 0, FrameLength = 0, PayloadRemoved = 0, Header = []\<rparr>"

definition SampledEthernet_zero :: SampledEthernet where
  "SampledEthernet_zero =
     \<lparr>SampledEthernet.Length = 0, SrcMac = replicate 6 0, DstMac = replicate 6 0,
      SampledEthernet.Type = 0\<rparr>"

definition SampledIPV4_zero :: SampledIPV4 where
  "SampledIPV4_zero =
     \<lparr>SampledIPV4.Length = 0, SampledIPV4.Protocol = 0,
      SampledIPV4.SrcIP = replicate 4 0, SampledIPV4.DstIP = replicate 4 0,
      SampledIPV4.SrcPort = 0, SampledIPV4.DstPort = 0,
      SampledIPV4.TCPFlags = 0, SampledIPV4.ToS = 0\<rparr>"

definition SampledIPV6_zero :: SampledIPV6 where
  "SampledIPV6_zero =
     \<lparr>SampledIPV6.Length = 0, SampledIPV6.Protocol = 0,
      SampledIPV6.SrcIP = replicate 16 0, SampledIPV6.DstIP = replicate 16 0,
      SampledIPV6.SrcPort = 0, SampledIPV6.DstPort = 0,
      SampledIPV6.TCPFlags = 0, SampledIPV6.ToS = 0\<rparr>"

text \<open>
  \<^verbatim>\<open>SampledHeader.Parse\<close>. The upper bound \<^verbatim>\<open>16+headerlength\<close> of the last slice is
  computed in \<^verbatim>\<open>uint32\<close> and can wrap below 16, where the slice expression panics: the
  result \<open>None\<close>.
\<close>

definition SampledHeader_Parse ::
  "SampledHeader \<Rightarrow> byte list \<Rightarrow> (SampledHeader \<times> error option) option" where
  "SampledHeader_Parse sh data =
     (if length data < 16 then Some (sh, Some ErrTooShort)
      else let sh' = sh\<lparr>SampledHeader.Protocol := Uint32 (reslice data 0 4),
                         FrameLength := Uint32 (reslice data 4 8),
                         PayloadRemoved := Uint32 (reslice data 8 12)\<rparr>;
               headerlength = Uint32 (reslice data 12 16)
           in if len32 (drop 16 data) < headerlength then Some (sh', Some ErrOutOfBounds)
              else if unat (16 + headerlength) < 16 then None
              else Some (sh'\<lparr>Header := copy (replicate (unat headerlength) 0)
                                           (reslice data 16 (unat (16 + headerlength)))\<rparr>,
                         None))"

definition SampledHeader_FlowType :: "SampledHeader \<Rightarrow> uint32" where
  "SampledHeader_FlowType sh = SampledHeaderType"

definition SampledEthernet_Parse ::
  "SampledEthernet \<Rightarrow> byte list \<Rightarrow> SampledEthernet \<times> error option" where
  "SampledEthernet_Parse se data =
     (if length data < 20 then (se, Some ErrTooShort)
      else (se\<lparr>SampledEthernet.Length := Uint32 (reslice data 0 4),
               SrcMac := copy (SrcMac se) (reslice data 4 10),
               DstMac := copy (DstMac se) (reslice data 10 16),
               SampledEthernet.Type := Uint32 (reslice data 16 20)\<rparr>, None))"

definition SampledEthernet_FlowType :: "SampledEthernet \<Rightarrow> uint32" where
  "SampledEthernet_FlowType se = SampledEthernetType"

definition SampledUnknown_Parse ::
  "SampledUnknown \<Rightarrow> byte list \<Rightarrow> SampledUnknown \<times> error option" where
  "SampledUnknown_Parse u data =
     (u\<lparr>Data := copy (replicate (length data) 0) data\<rparr>, None)"

definition SampledUnknown_FlowType :: "SampledUnknown \<Rightarrow> uint32" where
  "SampledUnknown_FlowType u = SampledUnknown.Type u"

definition SampledIPV4_Parse ::
  "SampledIPV4 \<Rightarrow> byte list \<Rightarrow> SampledIPV4 \<times> error option" where
  "SampledIPV4_Parse si data =
     (if length data < 32 then (si, Some ErrTooShort)
      else (si\<lparr>SampledIPV4.Length := Uint32 (reslice data 0 4),
               SampledIPV4.Protocol := Uint32 (reslice data 4 8),
               SampledIPV4.SrcIP := copy (SampledIPV4.SrcIP si) (reslice data 8 12),
               SampledIPV4.DstIP := copy (SampledIPV4.DstIP si) (reslice data 12 16),
               SampledIPV4.SrcPort := Uint32 (reslice data 16 20),
               SampledIPV4.DstPort := Uint32 (reslice data 20 24),
               SampledIPV4.TCPFlags := Uint32 (reslice data 24 28),
               SampledIPV4.ToS := Uint32 (reslice data 28 32)\<rparr>, None))"

definition SampledIPV4_FlowType :: "SampledIPV4 \<Rightarrow> uint32" where
  "SampledIPV4_FlowType u = SampledIPV4Type"

text \<open>
  \<^verbatim>\<open>SampledIPV4.ParseFromIPHeader\<close>. The header length \<^verbatim>\<open>(data[0] & 0xF) * 4\<close> is
  computed in \<^verbatim>\<open>byte\<close> arithmetic and then converted to \<^verbatim>\<open>int\<close>.
\<close>

definition ParseFromIPHeader ::
  "SampledIPV4 \<Rightarrow> byte list \<Rightarrow> SampledIPV4 \<times> error option" where
  "ParseFromIPHeader si data =
     (if length data < 20 then (si, Some ErrTooShort)
      else let si' = si\<lparr>SampledIPV4.SrcIP := copy (SampledIPV4.SrcIP si) (reslice data 12 16),
                         SampledIPV4.DstIP := copy (SampledIPV4.DstIP si) (reslice data 16 20),
                         SampledIPV4.Protocol := ucast (data ! 9)\<rparr>
           in if SampledIPV4.Protocol si' = 6 \<or> SampledIPV4.Protocol si' = 17
              then let ihl = unat ((data ! 0 AND 0xF) * 4)
                   in if ihl < 20 then (si', Some ErrOutOfBounds)
                      else if length data < ihl + 4 then (si', Some ErrOutOfBounds)
                      else (si'\<lparr>SampledIPV4.SrcPort :=
                                   ucast (Uint16 (reslice data ihl (ihl + 2))),
                                 SampledIPV4.DstPort :=
                                   ucast (Uint16 (reslice data (ihl + 2) (ihl + 4)))\<rparr>, None)
              else (si', None))"

definition SampledIPV6_Parse ::
  "SampledIPV6 \<Rightarrow> byte list \<Rightarrow> SampledIPV6 \<times> error option" where
  "SampledIPV6_Parse si data =
     (if length data < 56 then (si, Some ErrTooShort)
      else (si\<lparr>SampledIPV6.Length := Uint32 (reslice data 0 4),
               SampledIPV6.Protocol := Uint32 (reslice data 4 8),
               SampledIPV6.SrcIP := copy (SampledIPV6.SrcIP si) (reslice data 8 24),
               SampledIPV6.DstIP := copy (SampledIPV6.DstIP si) (reslice data 12 40),
               SampledIPV6.SrcPort := Uint32 (reslice data 40 44),
               SampledIPV6.DstPort := Uint32 (reslice data 44 48),
               SampledIPV6.TCPFlags := Uint32 (reslice data 48 52),
               SampledIPV6.ToS := Uint32 (reslice data 52 56)\<rparr>, None))"

definition SampledIPV6_FlowType :: "SampledIPV6 \<Rightarrow> uint32" where
  "SampledIPV6_FlowType u = SampledIPV4Type"

text \<open>
  \<^verbatim>\<open>SampledHeader.SampledIPv4\<close>: the derived view, \<open>None\<close> for the nil pointer. Each
  call of \<^verbatim>\<open>ParseFromIPHeader\<close> has a fresh \<^verbatim>\<open>&SampledIPV4{}\<close> as receiver.
\<close>

definition SampledIPv4 :: "SampledHeader \<Rightarrow> SampledIPV4 option" where
  "SampledIPv4 sh =
     (if SampledHeader.Protocol sh = 1 then
        (let ethernetHeaderSize = 14; header = Header sh
         in if length header < ethernetHeaderSize then None
            else let sw = Uint16 (reslice header 12 14);
                     tagged = (if sw = 0x8100 then
                                 (if length header < 18 then None
                                  else Some (ethernetHeaderSize + 4))
                               else if sw = 0x88a8 then
                                 (if length header < 22 then None
                                  else Some (ethernetHeaderSize + 8))
                               else Some ethernetHeaderSize)
                 in (case tagged of
                       None \<Rightarrow> None
                     | Some ethernetHeaderSize \<Rightarrow>
                         if length header < ethernetHeaderSize then None
                         else (case ParseFromIPHeader SampledIPV4_zero
                                      (drop ethernetHeaderSize header) of
                                 (sampleIPv4, Some err) \<Rightarrow> None
                               | (sampleIPv4, None) \<Rightarrow> Some sampleIPv4)))
      else if SampledHeader.Protocol sh = 11 then
        (case ParseFromIPHeader SampledIPV4_zero (Header sh) of
           (sampleIPv4, Some err) \<Rightarrow> None
         | (sampleIPv4, None) \<Rightarrow> Some sampleIPv4)
      else None)"

subsection \<open>Dispatch of flow records\<close>

text \<open>
  The interface \<^verbatim>\<open>Flow\<close> is implemented by the five record types above; a call of
  its method \<^verbatim>\<open>Parse\<close> goes to the method of the type held.
\<close>

datatype Flow =
    Flow_SampledHeader SampledHeader
  | Flow_SampledEthernet SampledEthernet
  | Flow_SampledUnknown SampledUnknown
  | Flow_SampledIPV4 SampledIPV4
  | Flow_SampledIPV6 SampledIPV6

definition Flow_Parse :: "Flow \<Rightarrow> byte list \<Rightarrow> (Flow \<times> error option) option" where
  "Flow_Parse flow data =
     (case flow of
        Flow_SampledHeader sh \<Rightarrow>
          map_option (\<lambda>(sh', err). (Flow_SampledHeader sh', err)) (SampledHeader_Parse sh data)
      | Flow_SampledEthernet se \<Rightarrow>
          (case SampledEthernet_Parse se data of (se', err) \<Rightarrow> Some (Flow_SampledEthernet se', err))
      | Flow_SampledUnknown u \<Rightarrow>
          (case SampledUnknown_Parse u data of (u', err) \<Rightarrow> Some (Flow_SampledUnknown u', err))
      | Flow_SampledIPV4 si \<Rightarrow>
          (case SampledIPV4_Parse si data of (si', err) \<Rightarrow> Some (Flow_SampledIPV4 si', err))
      | Flow_SampledIPV6 si \<Rightarrow>
          (case SampledIPV6_Parse si data of (si', err) \<Rightarrow> Some (Flow_SampledIPV6 si', err)))"

definition Flow_FlowType :: "Flow \<Rightarrow> uint32" where
  "Flow_FlowType flow =
     (case flow of
        Flow_SampledHeader sh \<Rightarrow> SampledHeader_FlowType sh
      | Flow_SampledEthernet se \<Rightarrow> SampledEthernet_FlowType se
      | Flow_SampledUnknown u \<Rightarrow> SampledUnknown_FlowType u
      | Flow_SampledIPV4 si \<Rightarrow> SampledIPV4_FlowType si
      | Flow_SampledIPV6 si \<Rightarrow> SampledIPV6_FlowType si)"

text \<open>
  \<^verbatim>\<open>DataFormat.ParseFlow\<close>. The result is \<open>None\<close> where the call panics, and
  otherwise the triple of the flow (\<open>None\<close> for nil), the rest of the buffer and the error.
\<close>

definition ParseFlow ::
  "DataFormat \<Rightarrow> byte list \<Rightarrow> (Flow option \<times> byte list \<times> error option) option" where
  "ParseFlow df data =
     (if len32 data < DataFormat.Length df then Some (None, [], Some ErrOutOfBounds)
      else let body = reslice data 0 (unat (DataFormat.Length df));
               rest = drop (unat (DataFormat.Length df)) data;
               flow = (if Format df = SampledHeaderType then
                         Some (Flow_SampledHeader SampledHeader_zero)
                       else if Format df = SampledIPV4Type then
                         Some (Flow_SampledIPV4 SampledIPV4_zero)
                       else if Format df = SampledIPV6Type then
                         Some (Flow_SampledIPV6 SampledIPV6_zero)
                       else Some (Flow_SampledUnknown
                                    \<lparr>SampledUnknown.Type = Format df, Data = []\<rparr>))
           in (case flow of
                 None \<Rightarrow> Some (None, rest, None)
               | Some fl \<Rightarrow>
                   (case Flow_Parse fl body of
                      None \<Rightarrow> None
                    | Some (fl', Some err) \<Rightarrow> Some (None, [], Some err)
                    | Some (fl', None) \<Rightarrow> Some (Some fl', rest, None))))"

subsection \<open>Counter records and the sample aggregators\<close>

text \<open>
  The record types \<^verbatim>\<open>IfCounter\<close>, \<^verbatim>\<open>EthernetCounter\<close>, \<^verbatim>\<open>TokenringCounters\<close>,
  \<^verbatim>\<open>VGCounters\<close>, \<^verbatim>\<open>VlanCounters\<close>, \<^verbatim>\<open>Processor\<close> and \<^verbatim>\<open>CounterUnknown\<close>,
  and the sample types \<^verbatim>\<open>FlowSample\<close> and \<^verbatim>\<open>FlowSampleExpanded\<close>, are declared in
  files that are not part of the sources at hand. They are parameters of the model: a
  type \<open>'c\<close> of counter records with the zero value of each record type and the method
  \<^verbatim>\<open>Parse\<close> of the interface \<^verbatim>\<open>Counter\<close>, and types \<open>'fs\<close> and \<open>'fse\<close> of the
  two flow samples with their zero values and \<^verbatim>\<open>Parse\<close> methods.
\<close>

record ('fs, 'fse, 'c) decoders =
  FlowSample_zero :: 'fs
  FlowSample_Parse :: "'fs \<Rightarrow> byte list \<Rightarrow> 'fs \<times> error option"
  FlowSampleExpanded_zero :: 'fse
  FlowSampleExpanded_Parse :: "'fse \<Rightarrow> byte list \<Rightarrow> 'fse \<times> error option"
  IfCounter_zero :: 'c
  EthernetCounter_zero :: 'c
  TokenringCounters_zero :: 'c
  VGCounters_zero :: 'c
  VlanCounters_zero :: 'c
  Processor_zero :: 'c
  CounterUnknown_new :: "uint32 \<Rightarrow> 'c"
  Counter_Parse :: "'c \<Rightarrow> byte list \<Rightarrow> 'c \<times> error option"

text \<open>\<^verbatim>\<open>DataFormat.ParseCounter\<close>; a nil \<^verbatim>\<open>Counter\<close> is \<open>None\<close>.\<close>

definition ParseCounter ::
  "('fs, 'fse, 'c) decoders \<Rightarrow> DataFormat \<Rightarrow> byte list
     \<Rightarrow> 'c option \<times> byte list \<times> error option" where
  "ParseCounter P df data =
     (if len32 data < DataFormat.Length df then (None, [], Some ErrOutOfBounds)
      else let body = reslice data 0 (unat (DataFormat.Length df));
               rest = drop (unat (DataFormat.Length df)) data;
               counter = (if Format df = IfCountersType then Some (IfCounter_zero P)
                          else if Format df = EthernetCountersType then
                            Some (EthernetCounter_zero P)
                          else if Format df = TokenringCountersType then
                            Some (TokenringCounters_zero P)
                          else if Format df = VGCountersType then Some (VGCounters_zero P)
                          else if Format df = VlanCountersType then Some (VlanCounters_zero P)
                          else if Format df = ProcessorType then Some (Processor_zero P)
                          else Some (CounterUnknown_new P (Format df)))
           in (case counter of
                 None \<Rightarrow> (None, rest, None)
               | Some c \<Rightarrow>
                   (case Counter_Parse P c body of
                      (c', Some err) \<Rightarrow> (None, [], Some err)
                    | (c', None) \<Rightarrow> (Some c', rest, None))))"

text \<open>
  The loop \<^verbatim>\<open>for i := uint32(0); i < records; i++\<close> that \<^verbatim>\<open>CounterSamples.Parse\<close>
  and \<^verbatim>\<open>CountersSampleExpanded.Parse\<close> both run, on the loop variables \<open>i\<close>,
  \<open>data\<close> and the field \<^verbatim>\<open>cs.Records\<close>. An error leaves the records appended so far
  in the receiver.
\<close>

function Records_loop ::
  "('fs, 'fse, 'c) decoders \<Rightarrow> uint32 \<Rightarrow> uint32 \<Rightarrow> byte list \<Rightarrow> 'c option list
     \<Rightarrow> 'c option list \<times> error option" where
  "Records_loop P records i data Recs =
     (if i < records then
        (case DataFormat_Parse DataFormat_zero data of
           (df, data', Some err) \<Rightarrow> (Recs, Some err)
         | (df, data', None) \<Rightarrow>
             (case ParseCounter P df data' of
                (counter, data'', Some err) \<Rightarrow> (Recs, Some err)
              | (counter, data'', None) \<Rightarrow>
                  Records_loop P records (i + 1) data'' (Recs @ [counter])))
      else (Recs, None))"
  by pat_completeness auto
termination
  by (relation "measure (\<lambda>(P, records, i, data, Recs). unat records - unat i)")
     (simp, clarsimp, unat_arith)

declare Records_loop.simps [simp del]

record 'c CounterSamples =
  SequenceNumber :: uint32
  SourceId :: uint32
  Records :: "'c option list"

record DataSourceExpanded =
  Type :: uint32
  Index :: uint32

record 'c CountersSampleExpanded =
  SequenceNumber :: uint32
  SourceId :: DataSourceExpanded
  Records :: "'c option list"

definition CounterSamples_zero :: "'c CounterSamples" where
  "CounterSamples_zero =
     \<lparr>CounterSamples.SequenceNumber = 0, CounterSamples.SourceId = 0,
      CounterSamples.Records = []\<rparr>"

definition CountersSampleExpanded_zero :: "'c CountersSampleExpanded" where
  "CountersSampleExpanded_zero =
     \<lparr>CountersSampleExpanded.SequenceNumber = 0,
      CountersSampleExpanded.SourceId = \<lparr>DataSourceExpanded.Type = 0, Index = 0\<rparr>,
      CountersSampleExpanded.Records = []\<rparr>"

definition CounterSamples_SampleType :: "'c CounterSamples \<Rightarrow> uint32" where
  "CounterSamples_SampleType cs = CounterSamplesType"

definition CounterSamples_Parse ::
  "('fs, 'fse, 'c) decoders \<Rightarrow> 'c CounterSamples \<Rightarrow> byte list
     \<Rightarrow> 'c CounterSamples \<times> error option" where
  "CounterSamples_Parse P cs data =
     (if length data < 12 then (cs, Some ErrTooShort)
      else let cs' = cs\<lparr>CounterSamples.SequenceNumber := Uint32 (reslice data 0 4),
                         CounterSamples.SourceId := Uint32 (reslice data 4 8)\<rparr>;
               records = Uint32 (reslice data 8 12)
           in (case Records_loop P records 0 (drop 12 data) (CounterSamples.Records cs') of
                 (Recs, err) \<Rightarrow> (cs'\<lparr>CounterSamples.Records := Recs\<rparr>, err)))"

definition CountersSampleExpanded_SampleType :: "'c CountersSampleExpanded \<Rightarrow> uint32" where
  "CountersSampleExpanded_SampleType cs = CountersSampleExpandedType"

definition CountersSampleExpanded_Parse ::
  "('fs, 'fse, 'c) decoders \<Rightarrow> 'c CountersSampleExpanded \<Rightarrow> byte list
     \<Rightarrow> 'c CountersSampleExpanded \<times> error option" where
  "CountersSampleExpanded_Parse P cs data =
     (if length data < 16 then (cs, Some ErrTooShort)
      else let cs' = cs\<lparr>CountersSampleExpanded.SequenceNumber := Uint32 (reslice data 0 4),
                         CountersSampleExpanded.SourceId :=
                           (CountersSampleExpanded.SourceId cs)
                             \<lparr>DataSourceExpanded.Type := Uint32 (reslice data 4 8),
                              Index := Uint32 (reslice data 8 12)\<rparr>\<rparr>;
               records = Uint32 (reslice data 12 16)
           in (case Records_loop P records 0 (drop 16 data)
                      (CountersSampleExpanded.Records cs') of
                 (Recs, err) \<Rightarrow> (cs'\<lparr>CountersSampleExpanded.Records := Recs\<rparr>, err)))"

subsection \<open>Dispatch of samples and the top-level loop\<close>

text \<open>The four types of the package that implement the interface \<^verbatim>\<open>Sample\<close>.\<close>

datatype ('fs, 'fse, 'c) Sample =
    Sample_CounterSamples "'c CounterSamples"
  | Sample_CountersSampleExpanded "'c CountersSampleExpanded"
  | Sample_FlowSample 'fs
  | Sample_FlowSampleExpanded 'fse

definition Sample_Parse ::
  "('fs, 'fse, 'c) decoders \<Rightarrow> ('fs, 'fse, 'c) Sample \<Rightarrow> byte list
     \<Rightarrow> ('fs, 'fse, 'c) Sample \<times> error option" where
  "Sample_Parse P sample data =
     (case sample of
        Sample_CounterSamples cs \<Rightarrow>
          (case CounterSamples_Parse P cs data of (cs', err) \<Rightarrow> (Sample_CounterSamples cs', err))
      | Sample_CountersSampleExpanded cs \<Rightarrow>
          (case CountersSampleExpanded_Parse P cs data of
             (cs', err) \<Rightarrow> (Sample_CountersSampleExpanded cs', err))
      | Sample_FlowSample fs \<Rightarrow>
          (case FlowSample_Parse P fs data of (fs', err) \<Rightarrow> (Sample_FlowSample fs', err))
      | Sample_FlowSampleExpanded fs \<Rightarrow>
          (case FlowSampleExpanded_Parse P fs data of
             (fs', err) \<Rightarrow> (Sample_FlowSampleExpanded fs', err)))"

text \<open>\<^verbatim>\<open>DataFormat.ParseSample\<close>; a nil \<^verbatim>\<open>Sample\<close> is \<open>None\<close>.\<close>

definition ParseSample ::
  "('fs, 'fse, 'c) decoders \<Rightarrow> DataFormat \<Rightarrow> byte list
     \<Rightarrow> ('fs, 'fse, 'c) Sample option \<times> byte list \<times> error option" where
  "ParseSample P df data =
     (if len32 data < DataFormat.Length df then (None, [], Some ErrOutOfBounds)
      else let body = reslice data 0 (unat (DataFormat.Length df));
               rest = drop (unat (DataFormat.Length df)) data;
               sample = (if Format df = CounterSamplesType then
                           Some (Sample_CounterSamples CounterSamples_zero)
                         else if Format df = FlowSampleType then
                           Some (Sample_FlowSample (FlowSample_zero P))
                         else if Format df = FlowSampleExpandedType then
                           Some (Sample_FlowSampleExpanded (FlowSampleExpanded_zero P))
                         else None)
           in (case sample of
                 None \<Rightarrow> (None, rest, None)
               | Some s \<Rightarrow>
                   (case Sample_Parse P s body of
                      (s', Some err) \<Rightarrow> (None, [], Some err)
                    | (s', None) \<Rightarrow> (Some s', rest, None))))"

text \<open>
  The loop of \<^verbatim>\<open>Header.ParseSamples\<close> on the loop variables \<open>i\<close>, \<open>data\<close> and
  \<open>samples\<close> (the slice \<^verbatim>\<open>dfs\<close> of envelopes is filled and never read). The result
  is the pair the method returns: the slice of samples, \<open>None\<close> for the nil slice, and
  the error. A sample that \<^verbatim>\<open>ParseSample\<close> returns as nil is appended as it is.
\<close>

function ParseSamples_loop ::
  "('fs, 'fse, 'c) decoders \<Rightarrow> uint32 \<Rightarrow> uint32 \<Rightarrow> byte list
     \<Rightarrow> ('fs, 'fse, 'c) Sample option list
     \<Rightarrow> ('fs, 'fse, 'c) Sample option list option \<times> error option" where
  "ParseSamples_loop P n i data samples =
     (if i < n then
        (case DataFormat_Parse DataFormat_zero data of
           (df, data', Some err) \<Rightarrow> (None, Some err)
         | (df, data', None) \<Rightarrow>
             (case ParseSample P df data' of
                (sample, data'', Some err) \<Rightarrow> (None, Some err)
              | (sample, data'', None) \<Rightarrow>
                  ParseSamples_loop P n (i + 1) data'' (samples @ [sample])))
      else (Some samples, None))"
  by pat_completeness auto
termination
  by (relation "measure (\<lambda>(P, n, i, data, samples). unat n - unat i)")
     (simp, clarsimp, unat_arith)

declare ParseSamples_loop.simps [simp del]

definition ParseSamples ::
  "('fs, 'fse, 'c) decoders \<Rightarrow> Header \<Rightarrow> byte list
     \<Rightarrow> ('fs, 'fse, 'c) Sample option list option \<times> error option" where
  "ParseSamples P h data = ParseSamples_loop P (NumSamples h) 0 data []"

subsection \<open>The wire layout of a SampledIPv4 record, as the specification gives it\<close>

text \<open>
  The package has no encoder. For the round trip the layout is written down from the
  specification: \<^verbatim>\<open>length:u32 protocol:u32 srcIP:4B dstIP:4B srcPort:u32 dstPort:u32
  tcpFlags:u32 tos:u32\<close>, every integer big-endian. \<open>PutUint32\<close> is the four bytes of
  \<^verbatim>\<open>binary.BigEndian.PutUint32\<close>.
\<close>

definition PutUint32 :: "uint32 \<Rightarrow> byte list" where
  "PutUint32 v = [ucast (drop_bit 24 v), ucast (drop_bit 16 v), ucast (drop_bit 8 v), ucast v]"

definition spec_encode_SampledIPV4 :: "SampledIPV4 \<Rightarrow> byte list" where
  "spec_encode_SampledIPV4 v =
     PutUint32 (SampledIPV4.Length v) @ PutUint32 (SampledIPV4.Protocol v)
       @ SampledIPV4.SrcIP v @ SampledIPV4.DstIP v
       @ PutUint32 (SampledIPV4.SrcPort v) @ PutUint32 (SampledIPV4.DstPort v)
       @ PutUint32 (SampledIPV4.TCPFlags v) @ PutUint32 (SampledIPV4.ToS v)"

definition literal_SampledIPV4 :: SampledIPV4 where
  "literal_SampledIPV4 =
     \<lparr>SampledIPV4.Length = 60, SampledIPV4.Protocol = 6,
      SampledIPV4.SrcIP = [10, 0, 0, 1], SampledIPV4.DstIP = [10, 0, 0, 2],
      SampledIPV4.SrcPort = 443, SampledIPV4.DstPort = 51000,
      SampledIPV4.TCPFlags = 0x18, SampledIPV4.ToS = 0\<rparr>"

subsection \<open>Notions of the specification for the IPv4 view, and example buffers\<close>

text \<open>
  The Internet Header Length as the specification words it: the low four bits of the
  first byte, times four.
\<close>

definition IHL :: "byte list \<Rightarrow> nat" where
  "IHL data = 4 * (unat (data ! 0) mod 16)"

text \<open>
  The offset of the IPv4 header in a captured Ethernet frame as the specification words
  it: 18 behind an 802.1Q tag, 22 behind a QinQ tag, 14 otherwise.
\<close>

definition ipv4_offset :: "byte list \<Rightarrow> nat" where
  "ipv4_offset header =
     (if Uint16 (take 2 (drop 12 header)) = 0x8100 then 18
      else if Uint16 (take 2 (drop 12 header)) = 0x88a8 then 22 else 14)"

text \<open>
  An IPv4 header of 20 bytes (first byte \<open>0x45\<close>) from 10.0.0.1 to 10.0.0.2, followed by
  the four bytes \<open>01 BB C7 38\<close> of the ports 443 and 51000: once with the protocol byte
  6 (TCP), once with 1 (ICMP), and once with the first byte \<open>0x44\<close>, a header length
  of 16. The last buffer is an Ethernet frame with an 802.1Q tag around the first.
\<close>

definition ex_ip_header_tcp :: "byte list" where
  "ex_ip_header_tcp =
     [0x45, 0, 0, 40, 0, 0, 0, 0, 64, 6, 0, 0, 10, 0, 0, 1, 10, 0, 0, 2,
      0x01, 0xBB, 0xC7, 0x38]"

definition ex_ip_header_icmp :: "byte list" where
  "ex_ip_header_icmp =
     [0x45, 0, 0, 40, 0, 0, 0, 0, 64, 1, 0, 0, 10, 0, 0, 1, 10, 0, 0, 2,
      0x01, 0xBB, 0xC7, 0x38]"

definition ex_ip_header_ihl16 :: "byte list" where
  "ex_ip_header_ihl16 =
     [0x44, 0, 0, 40, 0, 0, 0, 0, 64, 6, 0, 0, 10, 0, 0, 1, 10, 0, 0, 2,
      0x01, 0xBB, 0xC7, 0x38]"

definition ex_frame_8021q :: "byte list" where
  "ex_frame_8021q =
     [0, 1, 2, 3, 4, 5, 6, 7, 8, 9, 10, 11, 0x81, 0x00, 0, 100, 0x08, 0x00]
       @ ex_ip_header_tcp"

subsection \<open>Example datagrams\<close>

text \<open>The zero value of \<^verbatim>\<open>Header\<close>.\<close>

definition Header_zero :: Header where
  "Header_zero =
     \<lparr>Version = 0, AddressType = 0, AgentAddress = replicate 4 0, SubAgentID = 0,
      Header.SequenceNumber = 0, SysUptime = 0, NumSamples = 0\<rparr>"

text \<open>
  An instance of the parameters for the examples: a counter record is the raw bytes of
  its body, refused as too short below four bytes; the flow samples carry nothing.
\<close>

definition ex_decoders :: "(unit, unit, byte list) decoders" where
  "ex_decoders =
     \<lparr>FlowSample_zero = (), FlowSample_Parse = (\<lambda>fs data. ((), None)),
      FlowSampleExpanded_zero = (), FlowSampleExpanded_Parse = (\<lambda>fs data. ((), None)),
      IfCounter_zero = [], EthernetCounter_zero = [], TokenringCounters_zero = [],
      VGCounters_zero = [], VlanCounters_zero = [], Processor_zero = [],
      CounterUnknown_new = (\<lambda>code. []),
      Counter_Parse = (\<lambda>c data. if length data < 4 then (c, Some ErrTooShort)
                                 else (data, None))\<rparr>"

text \<open>
  A sample body in the layout of \<^verbatim>\<open>CountersSampleExpanded\<close>: sequence number 7, source
  type 0, source index 3, no records. The datagram is a header that declares one sample,
  the envelope with the format code 4 (\<^verbatim>\<open>CountersSampleExpandedType\<close>) and the length
  16, and this body.
\<close>

definition ex_expanded_body :: "byte list" where
  "ex_expanded_body = [0, 0, 0, 7, 0, 0, 0, 0, 0, 0, 0, 3, 0, 0, 0, 0]"

definition ex_expanded_datagram :: "byte list" where
  "ex_expanded_datagram =
     [0, 0, 0, 5, 0, 0, 0, 1, 10, 0, 0, 9, 0, 0, 0, 0, 0, 0, 0, 1, 0, 0, 0, 100, 0, 0, 0, 1]
       @ [0, 0, 0, 4, 0, 0, 0, 16] @ ex_expanded_body"

text \<open>
  Two sample sequences. Both start with an envelope of the unassigned format code 9
  around a body of two bytes. In the first a \<^verbatim>\<open>CounterSamples\<close> envelope follows
  (sequence number 1, source 2, no records). In the second the \<^verbatim>\<open>CounterSamples\<close> body
  declares one record, whose envelope declares four bytes that the body does not have.
\<close>

definition ex_unknown_then_counters :: "byte list" where
  "ex_unknown_then_counters =
     [0, 0, 0, 9, 0, 0, 0, 2, 0xAA, 0xBB]
       @ [0, 0, 0, 2, 0, 0, 0, 12, 0, 0, 0, 1, 0, 0, 0, 2, 0, 0, 0, 0]"

definition ex_truncated_record :: "byte list" where
  "ex_truncated_record =
     [0, 0, 0, 9, 0, 0, 0, 2, 0xAA, 0xBB]
       @ [0, 0, 0, 2, 0, 0, 0, 20, 0, 0, 0, 1, 0, 0, 0, 2, 0, 0, 0, 1,
          0, 0, 0, 1, 0, 0, 0, 4]"

text \<open>
  A counter record of the format code 1 with a body of four bytes and one byte behind it,
  and a \<^verbatim>\<open>CounterSamples\<close> body (sequence number 1, source 2) with one such record.
\<close>

definition ex_counter_record :: "byte list" where
  "ex_counter_record = [0, 0, 0, 1, 0, 0, 0, 4, 1, 2, 3, 4, 9]"

definition ex_counters_body :: "byte list" where
  "ex_counters_body =
     [0, 0, 0, 1, 0, 0, 0, 2, 0, 0, 0, 1] @ [0, 0, 0, 1, 0, 0, 0, 4, 1, 2, 3, 4]"

section \<open>Properties\<close>

subsection \<open>Big-endian reads and writes\<close>

lemma length_PutUint32: "length (PutUint32 v) = 4"
  by (simp add: PutUint32_def)

lemma Uint32_PutUint32: "Uint32 (PutUint32 v) = v"
  unfolding Uint32_def PutUint32_def
  apply simp
  apply (rule bit_word_eqI)
  apply (auto simp: bit_simps)
  apply (rule ccontr)
  apply (simp add: not_less)
  done

subsection \<open>The type tag of a SampledIPV6\<close>

text \<open>
  C10, as amended: for every \<^verbatim>\<open>SampledIPV6\<close> value the accessor \<^verbatim>\<open>FlowType()\<close>
  returns \<^verbatim>\<open>SampledIPV4Type\<close>, whose value is 3, the same as
  \<^verbatim>\<open>SampledIPV4.FlowType()\<close> returns, and not \<^verbatim>\<open>SampledIPV6Type\<close>, whose value
  is 4: the tag does not tell the two variants apart.
\<close>

theorem SampledIPV6_FlowType_is_IPV4_code:
  "SampledIPV6_FlowType v = 3 \<and> SampledIPV6_FlowType v = SampledIPV4_FlowType w
     \<and> SampledIPV4Type = 3 \<and> SampledIPV6Type = 4
     \<and> SampledIPV6_FlowType v \<noteq> SampledIPV6Type"
  by (simp add: SampledIPV6_FlowType_def SampledIPV4_FlowType_def SampledIPV4Type_def
        SampledIPV6Type_def)

text \<open>
  The tag of the value decoded from 56 zero bytes is not 4, the number the claim gives
  for it.
\<close>

theorem SampledIPV6_FlowType_not_4:
  "SampledIPV6_FlowType (fst (SampledIPV6_Parse SampledIPV6_zero (replicate 56 0))) \<noteq> 4"
  by (simp add: SampledIPV6_FlowType_def SampledIPV4Type_def)

subsection \<open>Round trip of a SampledIPv4 record\<close>

lemma encode_literal_SampledIPV4:
  "spec_encode_SampledIPV4 literal_SampledIPV4 =
     [0, 0, 0, 60, 0, 0, 0, 6, 10, 0, 0, 1, 10, 0, 0, 2,
      0, 0, 1, 187, 0, 0, 199, 56, 0, 0, 0, 24, 0, 0, 0, 0]"
  by (simp add: spec_encode_SampledIPV4_def literal_SampledIPV4_def PutUint32_def
        drop_bit_eq_div)

text \<open>
  The round trip holds for every record whose two addresses have four bytes, decoded
  into a fresh receiver.
\<close>

lemma SampledIPV4_roundtrip:
  "length (SampledIPV4.SrcIP v) = 4 \<Longrightarrow> length (SampledIPV4.DstIP v) = 4 \<Longrightarrow>
   SampledIPV4_Parse SampledIPV4_zero (spec_encode_SampledIPV4 v) = (v, None)"
  by (simp add: SampledIPV4_Parse_def SampledIPV4_zero_def spec_encode_SampledIPV4_def
        reslice_def copy_def Uint32_PutUint32 length_PutUint32)

text \<open>
  C8: the literal \<^verbatim>\<open>SampledIPv4{length=60, protocol=6, srcIP=10.0.0.1, dstIP=10.0.0.2,
  srcPort=443, dstPort=51000, tcpFlags=0x18, tos=0}\<close> is encoded into 32 bytes, and
  \<^verbatim>\<open>SampledIPV4.Parse\<close> on these bytes returns no error and a value with the same
  fields.
\<close>

theorem SampledIPV4_literal_roundtrip:
  "length (spec_encode_SampledIPV4 literal_SampledIPV4) = 32
     \<and> SampledIPV4_Parse SampledIPV4_zero
           [0, 0, 0, 60, 0, 0, 0, 6, 10, 0, 0, 1, 10, 0, 0, 2,
            0, 0, 1, 187, 0, 0, 199, 56, 0, 0, 0, 24, 0, 0, 0, 0]
         = (literal_SampledIPV4, None)
     \<and> SampledIPV4_Parse SampledIPV4_zero (spec_encode_SampledIPV4 literal_SampledIPV4)
         = (literal_SampledIPV4, None)"
  unfolding encode_literal_SampledIPV4
  by (simp add: SampledIPV4_Parse_def SampledIPV4_zero_def literal_SampledIPV4_def
        reslice_def copy_def Uint32_def)

subsection \<open>Lengths converted to 32 bits\<close>

lemma len32_less_iff: "len32 xs < w \<longleftrightarrow> length xs mod 2 ^ 32 < unat w"
  by (simp add: len32_def word_less_nat_alt unat_of_nat)

lemma len32_not_less_le: "\<not> len32 xs < w \<Longrightarrow> unat w \<le> length xs"
proof -
  assume "\<not> len32 xs < w"
  then have "unat w \<le> length xs mod 2 ^ 32" by (simp add: len32_less_iff)
  also have "\<dots> \<le> length xs" by simp
  finally show ?thesis .
qed

subsection \<open>The fixed-width decoder of SampledIPV6\<close>

lemma SampledIPV6_Parse_short:
  "length data < 56 \<Longrightarrow> SampledIPV6_Parse si data = (si, Some ErrTooShort)"
  by (simp add: SampledIPV6_Parse_def)

text \<open>
  On 56 bytes or more the decoder succeeds. Every field is read where the layout has it,
  except the destination address: its 16 bytes are those at offsets 12 to 28, not 24 to 40.
\<close>

lemma SampledIPV6_Parse_fields:
  assumes "56 \<le> length data"
    and "length (SampledIPV6.SrcIP si) = 16" and "length (SampledIPV6.DstIP si) = 16"
  shows "SampledIPV6_Parse si data =
    (\<lparr>SampledIPV6.Length = Uint32 (take 4 data),
      SampledIPV6.Protocol = Uint32 (take 4 (drop 4 data)),
      SampledIPV6.SrcIP = take 16 (drop 8 data),
      SampledIPV6.DstIP = take 16 (drop 12 data),
      SampledIPV6.SrcPort = Uint32 (take 4 (drop 40 data)),
      SampledIPV6.DstPort = Uint32 (take 4 (drop 44 data)),
      SampledIPV6.TCPFlags = Uint32 (take 4 (drop 48 data)),
      SampledIPV6.ToS = Uint32 (take 4 (drop 52 data))\<rparr>, None)"
  using assms
  by (simp add: SampledIPV6_Parse_def reslice_def copy_def min_def take_drop)

text \<open>
  C1, at the buffer of 56 bytes whose byte at offset \<open>i\<close> is \<open>3 * i + 1\<close>: the decoder
  succeeds, and the destination address it stores is the bytes at the offsets 12 to 27
  (37 to 82), where the claim has the bytes at the offsets 24 to 39 (73 to 118). The
  other seven fields are as the claim says.
\<close>

theorem SampledIPV6_Parse_DstIP_from_offset_12:
  "SampledIPV6_Parse SampledIPV6_zero
     [1, 4, 7, 10, 13, 16, 19, 22, 25, 28, 31, 34, 37, 40, 43, 46, 49, 52,
      55, 58, 61, 64, 67, 70, 73, 76, 79, 82, 85, 88, 91, 94, 97, 100, 103,
      106, 109, 112, 115, 118, 121, 124, 127, 130, 133, 136, 139, 142, 145,
      148, 151, 154, 157, 160, 163, 166]
   = (\<lparr>SampledIPV6.Length = 0x0104070A, SampledIPV6.Protocol = 0x0D101316,
       SampledIPV6.SrcIP = [25, 28, 31, 34, 37, 40, 43, 46, 49, 52, 55, 58, 61, 64, 67, 70],
       SampledIPV6.DstIP = [37, 40, 43, 46, 49, 52, 55, 58, 61, 64, 67, 70, 73, 76, 79, 82],
       SampledIPV6.SrcPort = 0x797C7F82, SampledIPV6.DstPort = 0x85888B8E,
       SampledIPV6.TCPFlags = 0x9194979A, SampledIPV6.ToS = 0x9DA0A3A6\<rparr>, None)"
  by (simp add: SampledIPV6_Parse_def SampledIPV6_zero_def reslice_def copy_def Uint32_def)

subsection \<open>The envelope reader\<close>

text \<open>
  C6, as amended: \<^verbatim>\<open>DataFormat.Parse\<close> fails with \<^verbatim>\<open>ErrTooShort\<close> exactly when the
  buffer has fewer than 8 bytes. On 8 bytes or more it reads the format code and the
  length as two big-endian 32-bit integers, and fails with \<^verbatim>\<open>ErrOutOfBounds\<close> exactly
  when the declared length exceeds the number of bytes after the 8-byte prefix reduced
  modulo \<open>2 ^ 32\<close>; for a buffer with fewer than \<open>2 ^ 32\<close> bytes after the prefix this is
  the number of those bytes itself. On success the buffer returned is the input
  without its first 8 bytes.
\<close>

theorem DataFormat_Parse_errors:
  "(snd (snd (DataFormat_Parse h data)) = Some ErrTooShort \<longleftrightarrow> length data < 8)
   \<and> (8 \<le> length data \<longrightarrow>
         DataFormat.Format (fst (DataFormat_Parse h data)) = Uint32 (take 4 data)
       \<and> DataFormat.Length (fst (DataFormat_Parse h data)) = Uint32 (take 4 (drop 4 data))
       \<and> (snd (snd (DataFormat_Parse h data)) = Some ErrOutOfBounds
            \<longleftrightarrow> (length data - 8) mod 2 ^ 32 < unat (Uint32 (take 4 (drop 4 data))))
       \<and> (length data - 8 < 2 ^ 32 \<longrightarrow>
            (snd (snd (DataFormat_Parse h data)) = Some ErrOutOfBounds
              \<longleftrightarrow> length data - 8 < unat (Uint32 (take 4 (drop 4 data))))))
   \<and> (snd (snd (DataFormat_Parse h data)) = None \<longrightarrow>
         fst (snd (DataFormat_Parse h data)) = drop 8 data)"
  by (simp add: DataFormat_Parse_def Let_def reslice_def len32_less_iff)

text \<open>
  The three outcomes on concrete buffers: an envelope of format 2 and length 3 with four
  bytes behind it, the same with length 5, and a buffer of seven bytes.
\<close>

theorem DataFormat_Parse_errors_witness:
  "8 \<le> length [0, 0, 0, 2, 0, 0, 0, 3, 1, 2, 3, 4 :: byte]
   \<and> length [0, 0, 0, 2, 0, 0, 0, 3, 1, 2, 3, 4 :: byte] - 8 < 2 ^ 32
   \<and> DataFormat_Parse DataFormat_zero [0, 0, 0, 2, 0, 0, 0, 3, 1, 2, 3, 4]
       = (\<lparr>Format = 2, Length = 3\<rparr>, [1, 2, 3, 4], None)
   \<and> snd (snd (DataFormat_Parse DataFormat_zero [0, 0, 0, 2, 0, 0, 0, 5, 1, 2, 3, 4]))
       = Some ErrOutOfBounds
   \<and> snd (snd (DataFormat_Parse DataFormat_zero [0, 0, 0, 2, 0, 0, 0])) = Some ErrTooShort"
  using DataFormat_Parse_errors [of DataFormat_zero "[0, 0, 0, 2, 0, 0, 0, 3, 1, 2, 3, 4]"]
    DataFormat_Parse_errors [of DataFormat_zero "[0, 0, 0, 2, 0, 0, 0, 5, 1, 2, 3, 4]"]
    DataFormat_Parse_errors [of DataFormat_zero "[0, 0, 0, 2, 0, 0, 0]"]
  by (simp add: DataFormat_Parse_def DataFormat_zero_def Let_def reslice_def len32_def
        Uint32_def)

text \<open>
  The claim as stated fails on a buffer of \<open>2 ^ 32 + 8\<close> bytes whose envelope declares
  the length 1: the \<open>2 ^ 32\<close> bytes after the prefix are counted as 0, and the reader
  returns \<^verbatim>\<open>ErrOutOfBounds\<close> although the declared length does not exceed them.
\<close>

theorem DataFormat_Parse_OutOfBounds_within_bounds:
  "snd (snd (DataFormat_Parse DataFormat_zero
               ([0, 0, 0, 0, 0, 0, 0, 1] @ replicate (2 ^ 32) 0))) = Some ErrOutOfBounds
   \<and> \<not> length (drop 8 ([0, 0, 0, 0, 0, 0, 0, 1 :: byte] @ replicate (2 ^ 32) 0))
         < unat (Uint32 (take 4 (drop 4 ([0, 0, 0, 0, 0, 0, 0, 1] @ replicate (2 ^ 32) 0))))"
  by (simp add: DataFormat_Parse_def DataFormat_zero_def Let_def reslice_def len32_def
        Uint32_def)

subsection \<open>The IPv4 view of a raw IP header\<close>

lemma ucast_byte_eq_iff: "(ucast (b :: byte) :: uint32) = ucast (c :: byte) \<longleftrightarrow> b = c"
proof
  assume "(ucast b :: uint32) = ucast c"
  then have "(ucast (ucast b :: uint32) :: byte) = ucast (ucast c :: uint32)" by simp
  then show "b = c" by (simp add: ucast_up_ucast_id is_up)
qed simp

lemma ucast_byte_eq_6: "(ucast (b :: byte) :: uint32) = 6 \<longleftrightarrow> b = 6"
  using ucast_byte_eq_iff [of b 6] by simp

lemma ucast_byte_eq_17: "(ucast (b :: byte) :: uint32) = 17 \<longleftrightarrow> b = 17"
  using ucast_byte_eq_iff [of b 17] by simp

lemma ihl_eq: "unat (((b :: byte) AND 0xF) * 4) = 4 * (unat b mod 16)"
proof -
  have m: "(b AND 0xF) = take_bit 4 b"
    by (simp add: take_bit_eq_mask mask_eq_exp_minus_1)
  have u: "unat (b AND 0xF) = unat b mod 16"
    by (simp add: m unsigned_take_bit_eq take_bit_eq_mod unat_mod)
  have "unat ((b AND 0xF) * 4) = (unat (b AND 0xF) * 4) mod 256"
    by (simp add: unat_word_ariths)
  also have "\<dots> = unat (b AND 0xF) * 4"
    unfolding u by (rule mod_less) simp
  finally show ?thesis by (simp add: u)
qed

text \<open>
  C4, as amended: \<^verbatim>\<open>ParseFromIPHeader\<close>, on a receiver whose two addresses have four
  bytes, fails with \<^verbatim>\<open>ErrTooShort\<close> and leaves the receiver as it is when the input
  has fewer than 20 bytes. On 20 bytes or more it copies the source and destination
  addresses from the offsets 12-16 and 16-20 and the protocol from byte 9, and leaves
  the length, the TCP flags and the type of service alone. When the protocol byte is 6
  or 17, with \<open>IHL\<close> the low four bits of byte 0 times four: it fails with
  \<^verbatim>\<open>ErrOutOfBounds\<close> if \<open>IHL\<close> is below 20 or the input is shorter than \<open>IHL + 4\<close>,
  and otherwise returns no error and reads the 16-bit ports at the offsets \<open>IHL\<close> and
  \<open>IHL + 2\<close>. For every other protocol byte it returns no error and leaves the ports
  as they are in the receiver (zero in a fresh one).
\<close>

theorem ParseFromIPHeader_outcomes:
  assumes "length (SampledIPV4.SrcIP si) = 4" and "length (SampledIPV4.DstIP si) = 4"
  shows
   "(length data < 20 \<longrightarrow> ParseFromIPHeader si data = (si, Some ErrTooShort))
  \<and> (20 \<le> length data \<longrightarrow>
       SampledIPV4.SrcIP (fst (ParseFromIPHeader si data)) = take 4 (drop 12 data)
     \<and> SampledIPV4.DstIP (fst (ParseFromIPHeader si data)) = take 4 (drop 16 data)
     \<and> SampledIPV4.Protocol (fst (ParseFromIPHeader si data)) = ucast (data ! 9)
     \<and> SampledIPV4.Length (fst (ParseFromIPHeader si data)) = SampledIPV4.Length si
     \<and> SampledIPV4.TCPFlags (fst (ParseFromIPHeader si data)) = SampledIPV4.TCPFlags si
     \<and> SampledIPV4.ToS (fst (ParseFromIPHeader si data)) = SampledIPV4.ToS si)
  \<and> (20 \<le> length data \<and> (data ! 9 = 6 \<or> data ! 9 = 17)
        \<and> (IHL data < 20 \<or> length data < IHL data + 4) \<longrightarrow>
       snd (ParseFromIPHeader si data) = Some ErrOutOfBounds)
  \<and> (20 \<le> length data \<and> (data ! 9 = 6 \<or> data ! 9 = 17)
        \<and> 20 \<le> IHL data \<and> IHL data + 4 \<le> length data \<longrightarrow>
       snd (ParseFromIPHeader si data) = None
     \<and> SampledIPV4.SrcPort (fst (ParseFromIPHeader si data))
         = ucast (Uint16 (take 2 (drop (IHL data) data)))
     \<and> SampledIPV4.DstPort (fst (ParseFromIPHeader si data))
         = ucast (Uint16 (take 2 (drop (IHL data + 2) data))))
  \<and> (20 \<le> length data \<and> data ! 9 \<noteq> 6 \<and> data ! 9 \<noteq> 17 \<longrightarrow>
       snd (ParseFromIPHeader si data) = None
     \<and> SampledIPV4.SrcPort (fst (ParseFromIPHeader si data)) = SampledIPV4.SrcPort si
     \<and> SampledIPV4.DstPort (fst (ParseFromIPHeader si data)) = SampledIPV4.DstPort si)"
proof -
  have short: "length data < 20 \<longrightarrow> ParseFromIPHeader si data = (si, Some ErrTooShort)"
    by (simp add: ParseFromIPHeader_def)
  have fixed: "20 \<le> length data \<longrightarrow>
       SampledIPV4.SrcIP (fst (ParseFromIPHeader si data)) = take 4 (drop 12 data)
     \<and> SampledIPV4.DstIP (fst (ParseFromIPHeader si data)) = take 4 (drop 16 data)
     \<and> SampledIPV4.Protocol (fst (ParseFromIPHeader si data)) = ucast (data ! 9)
     \<and> SampledIPV4.Length (fst (ParseFromIPHeader si data)) = SampledIPV4.Length si
     \<and> SampledIPV4.TCPFlags (fst (ParseFromIPHeader si data)) = SampledIPV4.TCPFlags si
     \<and> SampledIPV4.ToS (fst (ParseFromIPHeader si data)) = SampledIPV4.ToS si"
    using assms by (simp add: ParseFromIPHeader_def Let_def reslice_def copy_def)
  have oob: "20 \<le> length data \<and> (data ! 9 = 6 \<or> data ! 9 = 17)
        \<and> (IHL data < 20 \<or> length data < IHL data + 4) \<longrightarrow>
       snd (ParseFromIPHeader si data) = Some ErrOutOfBounds"
    by (auto simp: ParseFromIPHeader_def Let_def ihl_eq IHL_def ucast_byte_eq_6 ucast_byte_eq_17)
  have ports: "20 \<le> length data \<and> (data ! 9 = 6 \<or> data ! 9 = 17)
        \<and> 20 \<le> IHL data \<and> IHL data + 4 \<le> length data \<longrightarrow>
       snd (ParseFromIPHeader si data) = None
     \<and> SampledIPV4.SrcPort (fst (ParseFromIPHeader si data))
         = ucast (Uint16 (take 2 (drop (IHL data) data)))
     \<and> SampledIPV4.DstPort (fst (ParseFromIPHeader si data))
         = ucast (Uint16 (take 2 (drop (IHL data + 2) data)))"
    by (auto simp: ParseFromIPHeader_def Let_def ihl_eq IHL_def[symmetric] reslice_def
          ucast_byte_eq_6 ucast_byte_eq_17)
  have other: "20 \<le> length data \<and> data ! 9 \<noteq> 6 \<and> data ! 9 \<noteq> 17 \<longrightarrow>
       snd (ParseFromIPHeader si data) = None
     \<and> SampledIPV4.SrcPort (fst (ParseFromIPHeader si data)) = SampledIPV4.SrcPort si
     \<and> SampledIPV4.DstPort (fst (ParseFromIPHeader si data)) = SampledIPV4.DstPort si"
    by (simp add: ParseFromIPHeader_def Let_def ucast_byte_eq_6 ucast_byte_eq_17)
  from short fixed oob ports other show ?thesis by blast
qed

text \<open>
  The four cases on the example headers, decoded into a fresh receiver: TCP with the
  ports behind the header, ICMP, the TCP header cut to 19 bytes, and cut to 22 bytes.
\<close>

theorem ParseFromIPHeader_outcomes_witness:
  "length (SampledIPV4.SrcIP SampledIPV4_zero) = 4 \<and> length (SampledIPV4.DstIP SampledIPV4_zero) = 4
   \<and> 20 \<le> length ex_ip_header_tcp \<and> ex_ip_header_tcp ! 9 = 6
   \<and> 20 \<le> IHL ex_ip_header_tcp \<and> IHL ex_ip_header_tcp + 4 \<le> length ex_ip_header_tcp
   \<and> ParseFromIPHeader SampledIPV4_zero ex_ip_header_tcp =
        (\<lparr>SampledIPV4.Length = 0, SampledIPV4.Protocol = 6,
          SampledIPV4.SrcIP = [10, 0, 0, 1], SampledIPV4.DstIP = [10, 0, 0, 2],
          SampledIPV4.SrcPort = 443, SampledIPV4.DstPort = 51000,
          SampledIPV4.TCPFlags = 0, SampledIPV4.ToS = 0\<rparr>, None)
   \<and> ex_ip_header_icmp ! 9 \<noteq> 6 \<and> ex_ip_header_icmp ! 9 \<noteq> 17
   \<and> ParseFromIPHeader SampledIPV4_zero ex_ip_header_icmp =
        (\<lparr>SampledIPV4.Length = 0, SampledIPV4.Protocol = 1,
          SampledIPV4.SrcIP = [10, 0, 0, 1], SampledIPV4.DstIP = [10, 0, 0, 2],
          SampledIPV4.SrcPort = 0, SampledIPV4.DstPort = 0,
          SampledIPV4.TCPFlags = 0, SampledIPV4.ToS = 0\<rparr>, None)
   \<and> length (take 19 ex_ip_header_tcp) < 20
   \<and> snd (ParseFromIPHeader SampledIPV4_zero (take 19 ex_ip_header_tcp)) = Some ErrTooShort
   \<and> IHL (take 22 ex_ip_header_tcp) + 4 > length (take 22 ex_ip_header_tcp)
   \<and> snd (ParseFromIPHeader SampledIPV4_zero (take 22 ex_ip_header_tcp)) = Some ErrOutOfBounds"
  using ParseFromIPHeader_outcomes [of SampledIPV4_zero ex_ip_header_tcp]
    ParseFromIPHeader_outcomes [of SampledIPV4_zero ex_ip_header_icmp]
    ParseFromIPHeader_outcomes [of SampledIPV4_zero "take 19 ex_ip_header_tcp"]
    ParseFromIPHeader_outcomes [of SampledIPV4_zero "take 22 ex_ip_header_tcp"]
  by (simp add: ParseFromIPHeader_def SampledIPV4_zero_def Let_def reslice_def copy_def
        Uint16_def IHL_def ex_ip_header_tcp_def ex_ip_header_icmp_def)

text \<open>
  The claim as stated fails twice. An input of three bytes is refused with
  \<^verbatim>\<open>ErrTooShort\<close>, not \<^verbatim>\<open>ErrOutOfBounds\<close>. And a TCP header whose header length is
  16 is refused with \<^verbatim>\<open>ErrOutOfBounds\<close> although the input has the \<open>IHL + 4\<close> bytes
  that the ports need.
\<close>

theorem ParseFromIPHeader_TooShort_below_20:
  "snd (ParseFromIPHeader SampledIPV4_zero [0x45, 0, 0]) = Some ErrTooShort
   \<and> ex_ip_header_ihl16 ! 9 = 6 \<and> IHL ex_ip_header_ihl16 + 4 \<le> length ex_ip_header_ihl16
   \<and> snd (ParseFromIPHeader SampledIPV4_zero ex_ip_header_ihl16) = Some ErrOutOfBounds"
  by (simp add: ParseFromIPHeader_def SampledIPV4_zero_def Let_def reslice_def copy_def
        Uint16_def IHL_def ex_ip_header_ihl16_def)

subsection \<open>The IPv4 view of a sampled header\<close>

text \<open>
  C5: with the protocol id 1 and at least 14 captured bytes, the view is the result of
  \<^verbatim>\<open>ParseFromIPHeader\<close> on the captured bytes from the offset 14 on, from 18 on when
  the 16-bit value at the bytes 12-14 is \<open>0x8100\<close>, from 22 on when it is \<open>0x88a8\<close>;
  with the protocol id 11 it is the result on all the captured bytes. An error of
  \<^verbatim>\<open>ParseFromIPHeader\<close> makes the view absent, and so does any other protocol id and
  any shortage of bytes: fewer than the offset plus the 20 bytes of an IPv4 header with
  the protocol id 1, fewer than 20 with the protocol id 11.
\<close>

theorem SampledIPv4_derived_view:
  "(SampledHeader.Protocol sh = 1 \<and> 14 \<le> length (Header sh) \<longrightarrow>
      SampledIPv4 sh =
        (if length (Header sh) < ipv4_offset (Header sh) then None
         else case ParseFromIPHeader SampledIPV4_zero
                     (drop (ipv4_offset (Header sh)) (Header sh)) of
                (v, None) \<Rightarrow> Some v
              | (v, Some err) \<Rightarrow> None))
   \<and> (SampledHeader.Protocol sh = 11 \<longrightarrow>
      SampledIPv4 sh =
        (case ParseFromIPHeader SampledIPV4_zero (Header sh) of
           (v, None) \<Rightarrow> Some v
         | (v, Some err) \<Rightarrow> None))
   \<and> (SampledHeader.Protocol sh \<noteq> 1 \<and> SampledHeader.Protocol sh \<noteq> 11 \<longrightarrow>
      SampledIPv4 sh = None)
   \<and> (SampledHeader.Protocol sh = 1 \<and> length (Header sh) < ipv4_offset (Header sh) + 20 \<longrightarrow>
      SampledIPv4 sh = None)
   \<and> (SampledHeader.Protocol sh = 11 \<and> length (Header sh) < 20 \<longrightarrow>
      SampledIPv4 sh = None)"
proof -
  have off: "14 \<le> ipv4_offset (Header sh)" by (simp add: ipv4_offset_def)
  have eth: "SampledHeader.Protocol sh = 1 \<and> 14 \<le> length (Header sh) \<longrightarrow>
      SampledIPv4 sh =
        (if length (Header sh) < ipv4_offset (Header sh) then None
         else case ParseFromIPHeader SampledIPV4_zero
                     (drop (ipv4_offset (Header sh)) (Header sh)) of
                (v, None) \<Rightarrow> Some v
              | (v, Some err) \<Rightarrow> None)"
    by (auto simp: SampledIPv4_def Let_def ipv4_offset_def reslice_def
          split: prod.splits option.splits)
  have raw: "SampledHeader.Protocol sh = 11 \<longrightarrow>
      SampledIPv4 sh =
        (case ParseFromIPHeader SampledIPV4_zero (Header sh) of
           (v, None) \<Rightarrow> Some v
         | (v, Some err) \<Rightarrow> None)"
    by (auto simp: SampledIPv4_def split: prod.splits option.splits)
  have other: "SampledHeader.Protocol sh \<noteq> 1 \<and> SampledHeader.Protocol sh \<noteq> 11 \<longrightarrow>
      SampledIPv4 sh = None"
    by (simp add: SampledIPv4_def)
  have short_ip: "\<And>d. length d < 20 \<Longrightarrow>
      (case ParseFromIPHeader SampledIPV4_zero d of
         (v, None) \<Rightarrow> Some v | (v, Some err) \<Rightarrow> None) = None"
    by (simp add: ParseFromIPHeader_def)
  have short1: "SampledHeader.Protocol sh = 1 \<and> length (Header sh) < ipv4_offset (Header sh) + 20
      \<longrightarrow> SampledIPv4 sh = None"
  proof (intro impI, elim conjE)
    assume p: "SampledHeader.Protocol sh = 1"
      and l: "length (Header sh) < ipv4_offset (Header sh) + 20"
    show "SampledIPv4 sh = None"
    proof (cases "length (Header sh) < 14")
      case True
      with p show ?thesis by (simp add: SampledIPv4_def)
    next
      case False
      with p eth have e: "SampledIPv4 sh =
        (if length (Header sh) < ipv4_offset (Header sh) then None
         else case ParseFromIPHeader SampledIPV4_zero
                     (drop (ipv4_offset (Header sh)) (Header sh)) of
                (v, None) \<Rightarrow> Some v
              | (v, Some err) \<Rightarrow> None)" by simp
      from l have "length (drop (ipv4_offset (Header sh)) (Header sh)) < 20" by simp
      from short_ip [OF this] e show ?thesis by simp
    qed
  qed
  have short11: "SampledHeader.Protocol sh = 11 \<and> length (Header sh) < 20 \<longrightarrow>
      SampledIPv4 sh = None"
    using raw short_ip [of "Header sh"] by simp
  from eth raw other short1 short11 show ?thesis by blast
qed

text \<open>
  The view of the tagged example frame is read 18 bytes into the frame; further the raw
  header with the protocol id 11, an unknown protocol id, and two captures cut short.
\<close>

theorem SampledIPv4_derived_view_witness:
  "SampledHeader.Protocol \<lparr>SampledHeader.Protocol = 1, FrameLength = 64, PayloadRemoved = 0, Header = ex_frame_8021q\<rparr> = 1
   \<and> 14 \<le> length ex_frame_8021q \<and> ipv4_offset ex_frame_8021q = 18
   \<and> SampledIPv4 \<lparr>SampledHeader.Protocol = 1, FrameLength = 64, PayloadRemoved = 0, Header = ex_frame_8021q\<rparr>
       = Some \<lparr>SampledIPV4.Length = 0, SampledIPV4.Protocol = 6,
          SampledIPV4.SrcIP = [10, 0, 0, 1], SampledIPV4.DstIP = [10, 0, 0, 2],
          SampledIPV4.SrcPort = 443, SampledIPV4.DstPort = 51000,
          SampledIPV4.TCPFlags = 0, SampledIPV4.ToS = 0\<rparr>
   \<and> SampledIPv4 \<lparr>SampledHeader.Protocol = 11, FrameLength = 64, PayloadRemoved = 0, Header = ex_ip_header_tcp\<rparr>
       = Some \<lparr>SampledIPV4.Length = 0, SampledIPV4.Protocol = 6,
          SampledIPV4.SrcIP = [10, 0, 0, 1], SampledIPV4.DstIP = [10, 0, 0, 2],
          SampledIPV4.SrcPort = 443, SampledIPV4.DstPort = 51000,
          SampledIPV4.TCPFlags = 0, SampledIPV4.ToS = 0\<rparr>
   \<and> SampledIPv4 \<lparr>SampledHeader.Protocol = 2, FrameLength = 64, PayloadRemoved = 0, Header = ex_frame_8021q\<rparr> = None
   \<and> length (take 37 ex_frame_8021q) < ipv4_offset (take 37 ex_frame_8021q) + 20
   \<and> SampledIPv4 \<lparr>SampledHeader.Protocol = 1, FrameLength = 64, PayloadRemoved = 0, Header = take 37 ex_frame_8021q\<rparr> = None
   \<and> SampledIPv4 \<lparr>SampledHeader.Protocol = 11, FrameLength = 64, PayloadRemoved = 0, Header = take 19 ex_ip_header_tcp\<rparr> = None"
  using SampledIPv4_derived_view [of "\<lparr>SampledHeader.Protocol = 1, FrameLength = 64, PayloadRemoved = 0, Header = ex_frame_8021q\<rparr>"]
    SampledIPv4_derived_view [of "\<lparr>SampledHeader.Protocol = 11, FrameLength = 64, PayloadRemoved = 0, Header = ex_ip_header_tcp\<rparr>"]
    SampledIPv4_derived_view [of "\<lparr>SampledHeader.Protocol = 2, FrameLength = 64, PayloadRemoved = 0, Header = ex_frame_8021q\<rparr>"]
    SampledIPv4_derived_view [of "\<lparr>SampledHeader.Protocol = 1, FrameLength = 64, PayloadRemoved = 0, Header = take 37 ex_frame_8021q\<rparr>"]
    SampledIPv4_derived_view [of "\<lparr>SampledHeader.Protocol = 11, FrameLength = 64, PayloadRemoved = 0, Header = take 19 ex_ip_header_tcp\<rparr>"]
  by (simp add: ParseFromIPHeader_def SampledIPV4_zero_def Let_def reslice_def copy_def
        Uint16_def IHL_def ipv4_offset_def ex_frame_8021q_def ex_ip_header_tcp_def)

subsection \<open>Unrecognized format codes\<close>

lemma DataFormat_Parse_ok:
  assumes "DataFormat_Parse h buf = (df, data, None)"
  shows "8 \<le> length buf" and "data = drop 8 buf" and "\<not> len32 data < DataFormat.Length df"
    and "unat (DataFormat.Length df) \<le> length data"
    and "DataFormat.Format df = Uint32 (take 4 buf)"
    and "DataFormat.Length df = Uint32 (take 4 (drop 4 buf))"
proof -
  from assms show a: "8 \<le> length buf" and b: "data = drop 8 buf"
    and c: "\<not> len32 data < DataFormat.Length df"
    and "DataFormat.Format df = Uint32 (take 4 buf)"
    and "DataFormat.Length df = Uint32 (take 4 (drop 4 buf))"
    by (auto simp: DataFormat_Parse_def Let_def reslice_def split: if_splits)
  from c show "unat (DataFormat.Length df) \<le> length data" by (rule len32_not_less_le)
qed

lemma ParseFlow_unknown:
  assumes "\<not> len32 data < DataFormat.Length df"
    and "Format df \<noteq> SampledHeaderType" and "Format df \<noteq> SampledIPV4Type"
    and "Format df \<noteq> SampledIPV6Type"
  shows "ParseFlow df data =
     Some (Some (Flow_SampledUnknown
                   \<lparr>SampledUnknown.Type = Format df, Data = take (unat (DataFormat.Length df)) data\<rparr>),
           drop (unat (DataFormat.Length df)) data, None)"
  using assms len32_not_less_le [OF assms(1)]
  by (simp add: ParseFlow_def Let_def Flow_Parse_def SampledUnknown_Parse_def reslice_def copy_def)

lemma ParseSample_unknown:
  assumes "\<not> len32 data < DataFormat.Length df"
    and "Format df \<noteq> CounterSamplesType" and "Format df \<noteq> FlowSampleType"
    and "Format df \<noteq> FlowSampleExpandedType"
  shows "ParseSample P df data = (None, drop (unat (DataFormat.Length df)) data, None)"
  using assms by (simp add: ParseSample_def Let_def)

lemma ParseSamples_loop_step:
  assumes "i < n" and "DataFormat_Parse DataFormat_zero buf = (df, data, None)"
    and "ParseSample P df data = (sample, rest, None)"
  shows "ParseSamples_loop P n i buf samples = ParseSamples_loop P n (i + 1) rest (samples @ [sample])"
  using assms by (subst ParseSamples_loop.simps) simp

text \<open>
  C2: let the envelope reader have read the envelope \<open>df\<close> from \<open>buf\<close> and returned
  \<open>data\<close>, the buffer behind the 8-byte prefix. If the format code is none of those that
  \<^verbatim>\<open>ParseFlow\<close> recognizes, \<^verbatim>\<open>ParseFlow\<close> returns no error, a \<^verbatim>\<open>SampledUnknown\<close>
  with this code and with the first \<open>Length\<close> bytes of \<open>data\<close> (the body, which has
  that many bytes) as its data, and the buffer behind the body. If the format code is
  none of those that \<^verbatim>\<open>ParseSample\<close> recognizes, \<^verbatim>\<open>ParseSample\<close> returns no error,
  no sample, and the buffer behind the body, which is \<open>Length\<close> bytes shorter; and the
  loop of \<^verbatim>\<open>ParseSamples\<close> goes on with the next iteration on that buffer.
\<close>

theorem unrecognized_format_codes:
  assumes env: "DataFormat_Parse h buf = (df, data, None)"
  shows "(Format df \<noteq> SampledHeaderType \<and> Format df \<noteq> SampledIPV4Type
            \<and> Format df \<noteq> SampledIPV6Type \<longrightarrow>
          ParseFlow df data =
            Some (Some (Flow_SampledUnknown
                          \<lparr>SampledUnknown.Type = Format df,
                           Data = take (unat (DataFormat.Length df)) data\<rparr>),
                  drop (unat (DataFormat.Length df)) data, None)
          \<and> length (take (unat (DataFormat.Length df)) data) = unat (DataFormat.Length df))
       \<and> (Format df \<noteq> CounterSamplesType \<and> Format df \<noteq> FlowSampleType
            \<and> Format df \<noteq> FlowSampleExpandedType \<longrightarrow>
          ParseSample P df data = (None, drop (unat (DataFormat.Length df)) data, None)
          \<and> length (drop (unat (DataFormat.Length df)) data) + unat (DataFormat.Length df)
              = length data
          \<and> (h = DataFormat_zero \<and> i < n \<longrightarrow>
               ParseSamples_loop P n i buf samples =
               ParseSamples_loop P n (i + 1) (drop (unat (DataFormat.Length df)) data)
                 (samples @ [None])))"
proof -
  note ok = DataFormat_Parse_ok [OF env]
  have flow: "Format df \<noteq> SampledHeaderType \<and> Format df \<noteq> SampledIPV4Type
            \<and> Format df \<noteq> SampledIPV6Type \<longrightarrow>
          ParseFlow df data =
            Some (Some (Flow_SampledUnknown
                          \<lparr>SampledUnknown.Type = Format df,
                           Data = take (unat (DataFormat.Length df)) data\<rparr>),
                  drop (unat (DataFormat.Length df)) data, None)"
    using ParseFlow_unknown [OF ok(3)] by blast
  have len: "length (take (unat (DataFormat.Length df)) data) = unat (DataFormat.Length df)"
    using ok(4) by simp
  have sample: "Format df \<noteq> CounterSamplesType \<and> Format df \<noteq> FlowSampleType
            \<and> Format df \<noteq> FlowSampleExpandedType \<longrightarrow>
          ParseSample P df data = (None, drop (unat (DataFormat.Length df)) data, None)"
    using ParseSample_unknown [OF ok(3)] by blast
  have adv: "length (drop (unat (DataFormat.Length df)) data) + unat (DataFormat.Length df)
              = length data"
    using ok(4) by simp
  have loop: "ParseSample P df data = (None, drop (unat (DataFormat.Length df)) data, None)
      \<Longrightarrow> h = DataFormat_zero \<Longrightarrow> i < n \<Longrightarrow>
      ParseSamples_loop P n i buf samples =
               ParseSamples_loop P n (i + 1) (drop (unat (DataFormat.Length df)) data)
                 (samples @ [None])"
    using env by (simp add: ParseSamples_loop_step)
  from flow len sample adv loop show ?thesis by blast
qed

lemma ex_unknown_envelope: "DataFormat_Parse DataFormat_zero ex_unknown_then_counters
   = (\<lparr>Format = 9, Length = 2\<rparr>, drop 8 ex_unknown_then_counters, None)"
  by (simp add: DataFormat_Parse_def DataFormat_zero_def ex_unknown_then_counters_def Let_def
        reslice_def Uint32_def len32_def)

text \<open>
  On the first example sequence: the envelope with the code 9 gives a
  \<^verbatim>\<open>SampledUnknown\<close> with the two body bytes at the flow level and no sample at the
  sample level, and the \<^verbatim>\<open>CounterSamples\<close> behind it is decoded.
\<close>

theorem unrecognized_format_codes_witness:
  "DataFormat_Parse DataFormat_zero ex_unknown_then_counters
     = (\<lparr>Format = 9, Length = 2\<rparr>, drop 8 ex_unknown_then_counters, None)
   \<and> ParseFlow \<lparr>Format = 9, Length = 2\<rparr> (drop 8 ex_unknown_then_counters)
     = Some (Some (Flow_SampledUnknown \<lparr>SampledUnknown.Type = 9, Data = [0xAA, 0xBB]\<rparr>),
             drop 10 ex_unknown_then_counters, None)
   \<and> ParseSample ex_decoders \<lparr>Format = 9, Length = 2\<rparr> (drop 8 ex_unknown_then_counters)
     = (None, drop 10 ex_unknown_then_counters, None)
   \<and> (0 :: uint32) < 2
   \<and> ParseSamples_loop ex_decoders 2 0 ex_unknown_then_counters []
     = (Some [None, Some (Sample_CounterSamples
                \<lparr>CounterSamples.SequenceNumber = 1, CounterSamples.SourceId = 2,
                 CounterSamples.Records = []\<rparr>)], None)"
  using unrecognized_format_codes [OF ex_unknown_envelope, where P = ex_decoders and i = 0 and n = 2 and samples = "[]"]
  by (simp add: ex_unknown_envelope SampledHeaderType_def SampledIPV4Type_def SampledIPV6Type_def
        CounterSamplesType_def FlowSampleType_def FlowSampleExpandedType_def
        ex_unknown_then_counters_def ParseSamples_loop.simps DataFormat_Parse_def
        DataFormat_zero_def Let_def reslice_def Uint32_def len32_def ParseSample_def
        Sample_Parse_def CounterSamples_Parse_def CounterSamples_zero_def Records_loop.simps)

subsection \<open>The sample code of CountersSampleExpanded\<close>

text \<open>
  \<^verbatim>\<open>ParseSample\<close> allocates a \<^verbatim>\<open>CounterSamples\<close>, a \<^verbatim>\<open>FlowSample\<close> or a
  \<^verbatim>\<open>FlowSampleExpanded\<close>; no format code makes it return a
  \<^verbatim>\<open>CountersSampleExpanded\<close>.
\<close>

lemma ParseSample_never_expanded:
  "fst (ParseSample P df data) \<noteq> Some (Sample_CountersSampleExpanded cs)"
  by (auto simp: ParseSample_def Let_def Sample_Parse_def split: prod.splits option.splits)

text \<open>
  C3, at the example datagram: \<^verbatim>\<open>CountersSampleExpanded.Parse\<close> decodes the body into
  the sequence number 7 and the source \<open>{0, 3}\<close>, so the body follows the layout. The
  decode of the datagram reads the header, which declares one sample, and returns the
  sample list with the single entry nil: the envelope with the code 4 is skipped, and no
  \<^verbatim>\<open>CountersSampleExpanded\<close> is produced.
\<close>

theorem CountersSampleExpanded_not_dispatched:
  "CountersSampleExpanded_Parse P CountersSampleExpanded_zero ex_expanded_body
     = (\<lparr>CountersSampleExpanded.SequenceNumber = 7,
         CountersSampleExpanded.SourceId = \<lparr>DataSourceExpanded.Type = 0, Index = 3\<rparr>,
         CountersSampleExpanded.Records = []\<rparr>, None)
   \<and> (case Header_Parse Header_zero ex_expanded_datagram of
         (h, data, err) \<Rightarrow> err = None \<and> NumSamples h = 1
            \<and> data = [0, 0, 0, 4, 0, 0, 0, 16] @ ex_expanded_body
            \<and> ParseSamples P h data = (Some [None], None))"
  by (simp add: CountersSampleExpanded_Parse_def CountersSampleExpanded_zero_def
        ex_expanded_body_def ex_expanded_datagram_def Records_loop.simps reslice_def Uint32_def
        Header_Parse_def Header_zero_def ParseSamples_def ParseSamples_loop.simps
        DataFormat_Parse_def DataFormat_zero_def Let_def len32_def ParseSample_def
        CounterSamplesType_def FlowSampleType_def FlowSampleExpandedType_def copy_def)

subsection \<open>The loops, one iteration at a time\<close>

lemma loop_measure_Suc: "(i :: uint32) < n \<Longrightarrow> Suc (unat n - unat (i + 1)) = unat n - unat i"
  by unat_arith

lemma ParseSamples_loop_done:
  "\<not> i < n \<Longrightarrow> ParseSamples_loop P n i buf samples = (Some samples, None)"
  by (subst ParseSamples_loop.simps) simp

lemma ParseSamples_loop_env_error:
  "i < n \<Longrightarrow> DataFormat_Parse DataFormat_zero buf = (df, data, Some e) \<Longrightarrow>
   ParseSamples_loop P n i buf samples = (None, Some e)"
  by (subst ParseSamples_loop.simps) simp

lemma ParseSamples_loop_sample_error:
  "i < n \<Longrightarrow> DataFormat_Parse DataFormat_zero buf = (df, data, None) \<Longrightarrow>
   ParseSample P df data = (s, rest, Some e) \<Longrightarrow>
   ParseSamples_loop P n i buf samples = (None, Some e)"
  by (subst ParseSamples_loop.simps) simp

lemma ParseSamples_loop_shape:
  "(\<exists>e. ParseSamples_loop P n i buf samples = (None, Some e))
   \<or> (\<exists>ys. ParseSamples_loop P n i buf samples = (Some (samples @ ys), None))"
proof (induction "unat n - unat i" arbitrary: i buf samples)
  case 0
  then have "\<not> i < n" by (simp add: word_less_nat_alt)
  then show ?case by (simp add: ParseSamples_loop_done)
next
  case (Suc k)
  then have lt: "i < n" by (simp add: word_less_nat_alt)
  obtain df data e1 where env: "DataFormat_Parse DataFormat_zero buf = (df, data, e1)"
    by (metis prod_cases3)
  obtain s rest e2 where ps: "ParseSample P df data = (s, rest, e2)"
    by (metis prod_cases3)
  show ?case
  proof (cases e1)
    case (Some e)
    with lt env show ?thesis by (simp add: ParseSamples_loop_env_error)
  next
    case None
    note e1 = this
    show ?thesis
    proof (cases e2)
      case (Some e)
      with lt env e1 ps show ?thesis by (simp add: ParseSamples_loop_sample_error)
    next
      case None
      from lt env e1 ps None
      have step: "ParseSamples_loop P n i buf samples
                    = ParseSamples_loop P n (i + 1) rest (samples @ [s])"
        by (simp add: ParseSamples_loop_step)
      from Suc.hyps(2) loop_measure_Suc [OF lt] have "k = unat n - unat (i + 1)" by simp
      from Suc.hyps(1) [OF this, of rest "samples @ [s]"] show ?thesis
        unfolding step by auto
    qed
  qed
qed

lemma Records_loop_done:
  "\<not> i < n \<Longrightarrow> Records_loop P n i buf Recs = (Recs, None)"
  by (subst Records_loop.simps) simp

lemma Records_loop_env_error:
  "i < n \<Longrightarrow> DataFormat_Parse DataFormat_zero buf = (df, data, Some e) \<Longrightarrow>
   Records_loop P n i buf Recs = (Recs, Some e)"
  by (subst Records_loop.simps) simp

lemma Records_loop_counter_error:
  "i < n \<Longrightarrow> DataFormat_Parse DataFormat_zero buf = (df, data, None) \<Longrightarrow>
   ParseCounter P df data = (c, rest, Some e) \<Longrightarrow>
   Records_loop P n i buf Recs = (Recs, Some e)"
  by (subst Records_loop.simps) simp

lemma Records_loop_step:
  "i < n \<Longrightarrow> DataFormat_Parse DataFormat_zero buf = (df, data, None) \<Longrightarrow>
   ParseCounter P df data = (c, rest, None) \<Longrightarrow>
   Records_loop P n i buf Recs = Records_loop P n (i + 1) rest (Recs @ [c])"
  by (subst Records_loop.simps) simp

lemma ParseSample_out_of_bounds:
  "len32 data < DataFormat.Length df \<Longrightarrow> ParseSample P df data = (None, [], Some ErrOutOfBounds)"
  by (simp add: ParseSample_def)

lemma ParseSample_error_no_sample:
  "snd (snd (ParseSample P df data)) \<noteq> None \<Longrightarrow>
   fst (ParseSample P df data) = None \<and> fst (snd (ParseSample P df data)) = []"
  by (auto simp: ParseSample_def Let_def split: if_splits prod.splits option.splits)

lemma ParseSample_error_of_body:
  "\<not> len32 data < DataFormat.Length df \<Longrightarrow>
   snd (snd (ParseSample P df data)) =
     (if Format df = CounterSamplesType then
        snd (CounterSamples_Parse P CounterSamples_zero (take (unat (DataFormat.Length df)) data))
      else if Format df = FlowSampleType then
        snd (FlowSample_Parse P (FlowSample_zero P) (take (unat (DataFormat.Length df)) data))
      else if Format df = FlowSampleExpandedType then
        snd (FlowSampleExpanded_Parse P (FlowSampleExpanded_zero P)
               (take (unat (DataFormat.Length df)) data))
      else None)"
  by (auto simp: ParseSample_def Let_def Sample_Parse_def reslice_def
        split: prod.splits option.splits)

lemma CounterSamples_Parse_error:
  "snd (CounterSamples_Parse P cs data) =
     (if length data < 12 then Some ErrTooShort
      else snd (Records_loop P (Uint32 (take 4 (drop 8 data))) 0 (drop 12 data)
                  (CounterSamples.Records cs)))"
  by (simp add: CounterSamples_Parse_def Let_def reslice_def split: prod.splits)

lemma CountersSampleExpanded_Parse_error:
  "snd (CountersSampleExpanded_Parse P cs data) =
     (if length data < 16 then Some ErrTooShort
      else snd (Records_loop P (Uint32 (take 4 (drop 12 data))) 0 (drop 16 data)
                  (CountersSampleExpanded.Records cs)))"
  by (simp add: CountersSampleExpanded_Parse_def Let_def reslice_def split: prod.splits)

lemma ParseCounter_out_of_bounds:
  "len32 data < DataFormat.Length df \<Longrightarrow> ParseCounter P df data = (None, [], Some ErrOutOfBounds)"
  by (simp add: ParseCounter_def)

lemma ParseCounter_error_no_counter:
  "snd (snd (ParseCounter P df data)) \<noteq> None \<Longrightarrow>
   fst (ParseCounter P df data) = None \<and> fst (snd (ParseCounter P df data)) = []"
  by (auto simp: ParseCounter_def Let_def split: if_splits prod.splits option.splits)

lemma ParseCounter_error_of_body:
  assumes "\<not> len32 data < DataFormat.Length df"
  shows "snd (snd (ParseCounter P df data)) =
     snd (Counter_Parse P
            (if Format df = IfCountersType then IfCounter_zero P
             else if Format df = EthernetCountersType then EthernetCounter_zero P
             else if Format df = TokenringCountersType then TokenringCounters_zero P
             else if Format df = VGCountersType then VGCounters_zero P
             else if Format df = VlanCountersType then VlanCounters_zero P
             else if Format df = ProcessorType then Processor_zero P
             else CounterUnknown_new P (Format df))
            (take (unat (DataFormat.Length df)) data))"
proof -
  define c where "c =
            (if Format df = IfCountersType then IfCounter_zero P
             else if Format df = EthernetCountersType then EthernetCounter_zero P
             else if Format df = TokenringCountersType then TokenringCounters_zero P
             else if Format df = VGCountersType then VGCounters_zero P
             else if Format df = VlanCountersType then VlanCounters_zero P
             else if Format df = ProcessorType then Processor_zero P
             else CounterUnknown_new P (Format df))"
  have sel: "(if Format df = IfCountersType then Some (IfCounter_zero P)
              else if Format df = EthernetCountersType then Some (EthernetCounter_zero P)
              else if Format df = TokenringCountersType then Some (TokenringCounters_zero P)
              else if Format df = VGCountersType then Some (VGCounters_zero P)
              else if Format df = VlanCountersType then Some (VlanCounters_zero P)
              else if Format df = ProcessorType then Some (Processor_zero P)
              else Some (CounterUnknown_new P (Format df))) = Some c"
    by (simp add: c_def)
  obtain c' err where cp:
    "Counter_Parse P c (take (unat (DataFormat.Length df)) data) = (c', err)"
    by (cases "Counter_Parse P c (take (unat (DataFormat.Length df)) data)")
  have "snd (snd (ParseCounter P df data)) = err"
    using assms cp
    by (cases err) (simp_all only: ParseCounter_def Let_def reslice_def sel diff_zero drop_0
          if_False option.case prod.case snd_conv)
  with cp show ?thesis unfolding c_def by simp
qed

lemma ParseFlow_out_of_bounds:
  "len32 data < DataFormat.Length df \<Longrightarrow>
   ParseFlow df data = Some (None, [], Some ErrOutOfBounds)"
  by (simp add: ParseFlow_def)

lemma ParseFlow_error_no_flow:
  "ParseFlow df data = Some (fl, rest, Some e) \<Longrightarrow> fl = None \<and> rest = []"
  by (auto simp: ParseFlow_def Let_def split: if_splits prod.splits option.splits)

lemma ParseFlow_error_of_body:
  "\<not> len32 data < DataFormat.Length df \<Longrightarrow>
   map_option (\<lambda>r. snd (snd r)) (ParseFlow df data) =
     (if Format df = SampledHeaderType then
        map_option snd (SampledHeader_Parse SampledHeader_zero
                          (take (unat (DataFormat.Length df)) data))
      else if Format df = SampledIPV4Type then
        Some (snd (SampledIPV4_Parse SampledIPV4_zero
                     (take (unat (DataFormat.Length df)) data)))
      else if Format df = SampledIPV6Type then
        Some (snd (SampledIPV6_Parse SampledIPV6_zero
                     (take (unat (DataFormat.Length df)) data)))
      else Some None)"
  by (auto simp: ParseFlow_def Let_def Flow_Parse_def reslice_def SampledUnknown_Parse_def
        SampledHeaderType_def SampledIPV4Type_def SampledIPV6Type_def
        split: prod.splits option.splits)

lemma ParseSample_ok:
  assumes "ParseSample P df data = (s, rest, None)"
  shows "rest = drop (unat (DataFormat.Length df)) data"
    and "unat (DataFormat.Length df) \<le> length data"
proof -
  from assms have nl: "\<not> len32 data < DataFormat.Length df"
    by (auto simp: ParseSample_def split: if_splits)
  then show "unat (DataFormat.Length df) \<le> length data" by (rule len32_not_less_le)
  from assms nl show "rest = drop (unat (DataFormat.Length df)) data"
    by (auto simp: ParseSample_def Let_def split: option.splits prod.splits)
qed

lemma ParseCounter_ok:
  assumes "ParseCounter P df data = (c, rest, None)"
  shows "rest = drop (unat (DataFormat.Length df)) data"
    and "unat (DataFormat.Length df) \<le> length data"
proof -
  from assms have nl: "\<not> len32 data < DataFormat.Length df"
    by (auto simp: ParseCounter_def split: if_splits)
  then show "unat (DataFormat.Length df) \<le> length data" by (rule len32_not_less_le)
  from assms nl show "rest = drop (unat (DataFormat.Length df)) data"
    by (auto simp: ParseCounter_def Let_def split: option.splits prod.splits if_splits)
qed

lemma sample_iteration_consumes:
  assumes "DataFormat_Parse h buf = (df, data, None)" and "ParseSample P df data = (s, rest, None)"
  shows "rest = drop (8 + unat (DataFormat.Length df)) buf"
    and "8 + unat (DataFormat.Length df) \<le> length buf"
    and "length rest + 8 \<le> length buf"
proof -
  note e = DataFormat_Parse_ok [OF assms(1)] and p = ParseSample_ok [OF assms(2)]
  from e(2) p(1) show "rest = drop (8 + unat (DataFormat.Length df)) buf"
    by (simp add: add.commute)
  from e(1) e(2) p(2) show "8 + unat (DataFormat.Length df) \<le> length buf" by simp
  from e(1) e(2) p(1) show "length rest + 8 \<le> length buf" by simp
qed

lemma counter_iteration_consumes:
  assumes "DataFormat_Parse h buf = (df, data, None)" and "ParseCounter P df data = (c, rest, None)"
  shows "rest = drop (8 + unat (DataFormat.Length df)) buf"
    and "8 + unat (DataFormat.Length df) \<le> length buf"
    and "length rest + 8 \<le> length buf"
proof -
  note e = DataFormat_Parse_ok [OF assms(1)] and p = ParseCounter_ok [OF assms(2)]
  from e(2) p(1) show "rest = drop (8 + unat (DataFormat.Length df)) buf"
    by (simp add: add.commute)
  from e(1) e(2) p(2) show "8 + unat (DataFormat.Length df) \<le> length buf" by simp
  from e(1) e(2) p(1) show "length rest + 8 \<le> length buf" by simp
qed

lemma ParseSamples_loop_bound:
  "ParseSamples_loop P n i buf acc = (Some xs, None) \<Longrightarrow>
   length xs = length acc + (unat n - unat i) \<and> 8 * (unat n - unat i) \<le> length buf"
proof (induction "unat n - unat i" arbitrary: i buf acc)
  case 0
  then have "\<not> i < n" by (simp add: word_less_nat_alt)
  with 0 show ?case by (simp add: ParseSamples_loop_done)
next
  case (Suc k)
  then have lt: "i < n" by (simp add: word_less_nat_alt)
  obtain df data e1 where env: "DataFormat_Parse DataFormat_zero buf = (df, data, e1)"
    by (metis prod_cases3)
  obtain s rest e2 where ps: "ParseSample P df data = (s, rest, e2)"
    by (metis prod_cases3)
  from Suc.prems lt env have e1: "e1 = None"
    by (cases e1) (simp_all add: ParseSamples_loop_env_error)
  from Suc.prems lt env ps e1 have e2: "e2 = None"
    by (cases e2) (simp_all add: ParseSamples_loop_sample_error)
  from lt env ps e1 e2
  have step: "ParseSamples_loop P n i buf acc = ParseSamples_loop P n (i + 1) rest (acc @ [s])"
    by (simp add: ParseSamples_loop_step)
  have k: "k = unat n - unat (i + 1)"
    using Suc.hyps(2) loop_measure_Suc [OF lt] by simp
  from Suc.hyps(1) [OF k, of rest "acc @ [s]"] Suc.prems step
  have ih: "length xs = length (acc @ [s]) + (unat n - unat (i + 1))"
    "8 * (unat n - unat (i + 1)) \<le> length rest" by simp_all
  from env ps e1 e2 have "length rest + 8 \<le> length buf"
    using sample_iteration_consumes(3) by blast
  with ih k Suc.hyps(2) show ?case by simp
qed

lemma Records_loop_bound:
  "snd (Records_loop P n i buf acc) = None \<Longrightarrow>
   length (fst (Records_loop P n i buf acc)) = length acc + (unat n - unat i)
   \<and> 8 * (unat n - unat i) \<le> length buf"
proof (induction "unat n - unat i" arbitrary: i buf acc)
  case 0
  then have "\<not> i < n" by (simp add: word_less_nat_alt)
  with 0 show ?case by (simp add: Records_loop_done)
next
  case (Suc k)
  then have lt: "i < n" by (simp add: word_less_nat_alt)
  obtain df data e1 where env: "DataFormat_Parse DataFormat_zero buf = (df, data, e1)"
    by (metis prod_cases3)
  obtain c rest e2 where ps: "ParseCounter P df data = (c, rest, e2)"
    by (metis prod_cases3)
  from Suc.prems lt env have e1: "e1 = None"
    by (cases e1) (simp_all add: Records_loop_env_error)
  from Suc.prems lt env ps e1 have e2: "e2 = None"
    by (cases e2) (simp_all add: Records_loop_counter_error)
  from lt env ps e1 e2
  have step: "Records_loop P n i buf acc = Records_loop P n (i + 1) rest (acc @ [c])"
    by (simp add: Records_loop_step)
  have k: "k = unat n - unat (i + 1)"
    using Suc.hyps(2) loop_measure_Suc [OF lt] by simp
  from Suc.hyps(1) [OF k, of rest "acc @ [c]"] Suc.prems step
  have ih: "length (fst (Records_loop P n i buf acc)) = length (acc @ [c]) + (unat n - unat (i + 1))"
    "8 * (unat n - unat (i + 1)) \<le> length rest" by simp_all
  from env ps e1 e2 have "length rest + 8 \<le> length buf"
    using counter_iteration_consumes(3) by blast
  with ih k Suc.hyps(2) show ?case by simp
qed

text \<open>The unfolding rules that evaluate a decode on a concrete buffer.\<close>

lemmas decode_eval = ParseSamples_def ParseSamples_loop.simps Records_loop.simps DataFormat_Parse_def
  DataFormat_zero_def Let_def reslice_def Uint32_def len32_def ParseSample_def ParseCounter_def
  Sample_Parse_def CounterSamples_Parse_def CounterSamples_zero_def
  CountersSampleExpanded_Parse_def CountersSampleExpanded_zero_def
  CounterSamplesType_def FlowSampleType_def FlowSampleExpandedType_def
  IfCountersType_def EthernetCountersType_def TokenringCountersType_def VGCountersType_def
  VlanCountersType_def ProcessorType_def ex_decoders_def Header_zero_def

subsection \<open>Errors abort the whole decode\<close>

text \<open>
  C7: \<^verbatim>\<open>ParseSamples\<close> runs its loop from the first iteration with no samples, and
  returns either an error and the nil slice, or a slice of samples and no error. In the
  loop, at any iteration \<open>i\<close> and whatever samples \<open>acc\<close> have been decoded: an error
  of the envelope reader is returned with the nil slice, and so is an error of
  \<^verbatim>\<open>ParseSample\<close>; after an iteration without error the result is that of the rest of
  the loop. One level down, \<^verbatim>\<open>ParseSample\<close> returns \<^verbatim>\<open>ErrOutOfBounds\<close> when the
  body exceeds the buffer, and otherwise its error is the error of the \<^verbatim>\<open>Parse\<close>
  method of the sample that the format code selects, and with an error it returns no
  sample. Two levels down, the error of \<^verbatim>\<open>CounterSamples.Parse\<close> is \<^verbatim>\<open>ErrTooShort\<close>
  below 12 bytes (of \<^verbatim>\<open>CountersSampleExpanded.Parse\<close> below 16) and otherwise the
  error of its loop over the records, where an error of the envelope reader or of
  \<^verbatim>\<open>ParseCounter\<close> at any iteration is the error of the loop. Three levels down,
  \<^verbatim>\<open>ParseCounter\<close> returns \<^verbatim>\<open>ErrOutOfBounds\<close> when the body exceeds the buffer,
  and otherwise its error is the error of the \<^verbatim>\<open>Parse\<close> method of the counter record
  that the format code selects, for every format code, and with an error it returns no
  record. The same holds of \<^verbatim>\<open>ParseFlow\<close>, the record dispatch of the flow samples,
  whose decoders fail with \<^verbatim>\<open>ErrTooShort\<close> below their fixed size (32 bytes for
  \<^verbatim>\<open>SampledIPV4\<close>, 56 for \<^verbatim>\<open>SampledIPV6\<close>, 16 for \<^verbatim>\<open>SampledHeader\<close>) and, for
  \<^verbatim>\<open>SampledHeader\<close>, with \<^verbatim>\<open>ErrOutOfBounds\<close> when the captured bytes are fewer than
  declared. The envelope reader itself fails with \<^verbatim>\<open>ErrTooShort\<close> below 8 bytes and
  with \<^verbatim>\<open>ErrOutOfBounds\<close> when the 32-bit count of the bytes behind the prefix is below
  the declared length.
\<close>

theorem ParseSamples_error_propagation:
  "((\<exists>e. ParseSamples P h data = (None, Some e))
      \<or> (\<exists>samples. ParseSamples P h data = (Some samples, None)))
   \<and> (i < n \<and> DataFormat_Parse DataFormat_zero buf = (df, rest, Some e) \<longrightarrow>
        ParseSamples_loop P n i buf acc = (None, Some e))
   \<and> (i < n \<and> DataFormat_Parse DataFormat_zero buf = (df, rest, None)
        \<and> ParseSample P df rest = (s, rest', Some e) \<longrightarrow>
        ParseSamples_loop P n i buf acc = (None, Some e))
   \<and> (i < n \<and> DataFormat_Parse DataFormat_zero buf = (df, rest, None)
        \<and> ParseSample P df rest = (s, rest', None) \<longrightarrow>
        ParseSamples_loop P n i buf acc = ParseSamples_loop P n (i + 1) rest' (acc @ [s]))
   \<and> (len32 rest < DataFormat.Length df \<longrightarrow>
        ParseSample P df rest = (None, [], Some ErrOutOfBounds))
   \<and> (\<not> len32 rest < DataFormat.Length df \<longrightarrow>
        snd (snd (ParseSample P df rest)) =
          (if Format df = CounterSamplesType then
             snd (CounterSamples_Parse P CounterSamples_zero
                    (take (unat (DataFormat.Length df)) rest))
           else if Format df = FlowSampleType then
             snd (FlowSample_Parse P (FlowSample_zero P)
                    (take (unat (DataFormat.Length df)) rest))
           else if Format df = FlowSampleExpandedType then
             snd (FlowSampleExpanded_Parse P (FlowSampleExpanded_zero P)
                    (take (unat (DataFormat.Length df)) rest))
           else None))
   \<and> (snd (snd (ParseSample P df rest)) \<noteq> None \<longrightarrow> fst (ParseSample P df rest) = None)
   \<and> snd (CounterSamples_Parse P cs body) =
        (if length body < 12 then Some ErrTooShort
         else snd (Records_loop P (Uint32 (take 4 (drop 8 body))) 0 (drop 12 body)
                     (CounterSamples.Records cs)))
   \<and> (j < m \<and> DataFormat_Parse DataFormat_zero rbuf = (rdf, rrest, Some e) \<longrightarrow>
        snd (Records_loop P m j rbuf Recs) = Some e)
   \<and> (j < m \<and> DataFormat_Parse DataFormat_zero rbuf = (rdf, rrest, None)
        \<and> ParseCounter P rdf rrest = (c, rrest', Some e) \<longrightarrow>
        snd (Records_loop P m j rbuf Recs) = Some e)
   \<and> (j < m \<and> DataFormat_Parse DataFormat_zero rbuf = (rdf, rrest, None)
        \<and> ParseCounter P rdf rrest = (c, rrest', None) \<longrightarrow>
        Records_loop P m j rbuf Recs = Records_loop P m (j + 1) rrest' (Recs @ [c]))
   \<and> ParseSamples P h data = ParseSamples_loop P (NumSamples h) 0 data []
   \<and> (length ebuf < 8 \<longrightarrow>
        DataFormat_Parse edf ebuf = (edf, [], Some ErrTooShort))
   \<and> (8 \<le> length ebuf \<and> len32 (drop 8 ebuf) < Uint32 (take 4 (drop 4 ebuf)) \<longrightarrow>
        snd (snd (DataFormat_Parse edf ebuf)) = Some ErrOutOfBounds)
   \<and> snd (CountersSampleExpanded_Parse P cse body) =
        (if length body < 16 then Some ErrTooShort
         else snd (Records_loop P (Uint32 (take 4 (drop 12 body))) 0 (drop 16 body)
                     (CountersSampleExpanded.Records cse)))
   \<and> (len32 rrest < DataFormat.Length rdf \<longrightarrow>
        ParseCounter P rdf rrest = (None, [], Some ErrOutOfBounds))
   \<and> (\<not> len32 rrest < DataFormat.Length rdf \<longrightarrow>
        snd (snd (ParseCounter P rdf rrest)) =
          snd (Counter_Parse P
                 (if Format rdf = IfCountersType then IfCounter_zero P
                  else if Format rdf = EthernetCountersType then EthernetCounter_zero P
                  else if Format rdf = TokenringCountersType then TokenringCounters_zero P
                  else if Format rdf = VGCountersType then VGCounters_zero P
                  else if Format rdf = VlanCountersType then VlanCounters_zero P
                  else if Format rdf = ProcessorType then Processor_zero P
                  else CounterUnknown_new P (Format rdf))
                 (take (unat (DataFormat.Length rdf)) rrest)))
   \<and> (snd (snd (ParseCounter P rdf rrest)) \<noteq> None \<longrightarrow>
        fst (ParseCounter P rdf rrest) = None)
   \<and> (len32 fdata < DataFormat.Length fdf \<longrightarrow>
        ParseFlow fdf fdata = Some (None, [], Some ErrOutOfBounds))
   \<and> (\<not> len32 fdata < DataFormat.Length fdf \<longrightarrow>
        map_option (\<lambda>r. snd (snd r)) (ParseFlow fdf fdata) =
          (if Format fdf = SampledHeaderType then
             map_option snd (SampledHeader_Parse SampledHeader_zero
                               (take (unat (DataFormat.Length fdf)) fdata))
           else if Format fdf = SampledIPV4Type then
             Some (snd (SampledIPV4_Parse SampledIPV4_zero
                          (take (unat (DataFormat.Length fdf)) fdata)))
           else if Format fdf = SampledIPV6Type then
             Some (snd (SampledIPV6_Parse SampledIPV6_zero
                          (take (unat (DataFormat.Length fdf)) fdata)))
           else Some None))
   \<and> (ParseFlow fdf fdata = Some (fl, frest, Some e) \<longrightarrow> fl = None)
   \<and> snd (SampledIPV4_Parse sia fbody) = (if length fbody < 32 then Some ErrTooShort else None)
   \<and> snd (SampledIPV6_Parse sib fbody) = (if length fbody < 56 then Some ErrTooShort else None)
   \<and> (length fbody < 16 \<longrightarrow>
        SampledHeader_Parse sh fbody = Some (sh, Some ErrTooShort))
   \<and> (16 \<le> length fbody \<and> len32 (drop 16 fbody) < Uint32 (take 4 (drop 12 fbody)) \<longrightarrow>
        map_option snd (SampledHeader_Parse sh fbody) = Some (Some ErrOutOfBounds))"
proof -
  have shape: "(\<exists>e. ParseSamples P h data = (None, Some e))
      \<or> (\<exists>samples. ParseSamples P h data = (Some samples, None))"
    using ParseSamples_loop_shape [of P "NumSamples h" 0 data "[]"]
    by (auto simp: ParseSamples_def)
  have env: "i < n \<and> DataFormat_Parse DataFormat_zero buf = (df, rest, Some e) \<longrightarrow>
        ParseSamples_loop P n i buf acc = (None, Some e)"
    by (blast intro: ParseSamples_loop_env_error)
  have smp: "i < n \<and> DataFormat_Parse DataFormat_zero buf = (df, rest, None)
        \<and> ParseSample P df rest = (s, rest', Some e) \<longrightarrow>
        ParseSamples_loop P n i buf acc = (None, Some e)"
    by (blast intro: ParseSamples_loop_sample_error)
  have step: "i < n \<and> DataFormat_Parse DataFormat_zero buf = (df, rest, None)
        \<and> ParseSample P df rest = (s, rest', None) \<longrightarrow>
        ParseSamples_loop P n i buf acc = ParseSamples_loop P n (i + 1) rest' (acc @ [s])"
    by (blast intro: ParseSamples_loop_step)
  have smp_oob: "len32 rest < DataFormat.Length df \<longrightarrow>
        ParseSample P df rest = (None, [], Some ErrOutOfBounds)"
    by (blast intro: ParseSample_out_of_bounds)
  have body: "\<not> len32 rest < DataFormat.Length df \<longrightarrow>
        snd (snd (ParseSample P df rest)) =
          (if Format df = CounterSamplesType then
             snd (CounterSamples_Parse P CounterSamples_zero
                    (take (unat (DataFormat.Length df)) rest))
           else if Format df = FlowSampleType then
             snd (FlowSample_Parse P (FlowSample_zero P)
                    (take (unat (DataFormat.Length df)) rest))
           else if Format df = FlowSampleExpandedType then
             snd (FlowSampleExpanded_Parse P (FlowSampleExpanded_zero P)
                    (take (unat (DataFormat.Length df)) rest))
           else None)"
    by (rule impI) (rule ParseSample_error_of_body)
  have nosample: "snd (snd (ParseSample P df rest)) \<noteq> None \<longrightarrow>
      fst (ParseSample P df rest) = None"
    using ParseSample_error_no_sample [of P df rest] by blast
  have cs_err: "snd (CounterSamples_Parse P cs body) =
        (if length body < 12 then Some ErrTooShort
         else snd (Records_loop P (Uint32 (take 4 (drop 8 body))) 0 (drop 12 body)
                     (CounterSamples.Records cs)))"
    by (rule CounterSamples_Parse_error)
  have rec_env: "j < m \<and> DataFormat_Parse DataFormat_zero rbuf = (rdf, rrest, Some e) \<longrightarrow>
        snd (Records_loop P m j rbuf Recs) = Some e"
    by (auto simp: Records_loop_env_error)
  have rec_cnt: "j < m \<and> DataFormat_Parse DataFormat_zero rbuf = (rdf, rrest, None)
        \<and> ParseCounter P rdf rrest = (c, rrest', Some e) \<longrightarrow>
        snd (Records_loop P m j rbuf Recs) = Some e"
    by (auto simp: Records_loop_counter_error)
  have rec_step: "j < m \<and> DataFormat_Parse DataFormat_zero rbuf = (rdf, rrest, None)
        \<and> ParseCounter P rdf rrest = (c, rrest', None) \<longrightarrow>
        Records_loop P m j rbuf Recs = Records_loop P m (j + 1) rrest' (Recs @ [c])"
    by (blast intro: Records_loop_step)
  have entry: "ParseSamples P h data = ParseSamples_loop P (NumSamples h) 0 data []"
    by (simp add: ParseSamples_def)
  have rd_short: "(length ebuf < 8 \<longrightarrow>
        DataFormat_Parse edf ebuf = (edf, [], Some ErrTooShort))"
    by (simp add: DataFormat_Parse_def)
  have rd_oob: "(8 \<le> length ebuf \<and> len32 (drop 8 ebuf) < Uint32 (take 4 (drop 4 ebuf)) \<longrightarrow>
        snd (snd (DataFormat_Parse edf ebuf)) = Some ErrOutOfBounds)"
    by (simp add: DataFormat_Parse_def Let_def reslice_def)
  have cse_err: "snd (CountersSampleExpanded_Parse P cse body) =
        (if length body < 16 then Some ErrTooShort
         else snd (Records_loop P (Uint32 (take 4 (drop 12 body))) 0 (drop 16 body)
                     (CountersSampleExpanded.Records cse)))"
    by (rule CountersSampleExpanded_Parse_error)
  have cnt_oob: "(len32 rrest < DataFormat.Length rdf \<longrightarrow>
        ParseCounter P rdf rrest = (None, [], Some ErrOutOfBounds))"
    by (simp add: ParseCounter_out_of_bounds)
  have cnt_body: "(\<not> len32 rrest < DataFormat.Length rdf \<longrightarrow>
        snd (snd (ParseCounter P rdf rrest)) =
          snd (Counter_Parse P
                 (if Format rdf = IfCountersType then IfCounter_zero P
                  else if Format rdf = EthernetCountersType then EthernetCounter_zero P
                  else if Format rdf = TokenringCountersType then TokenringCounters_zero P
                  else if Format rdf = VGCountersType then VGCounters_zero P
                  else if Format rdf = VlanCountersType then VlanCounters_zero P
                  else if Format rdf = ProcessorType then Processor_zero P
                  else CounterUnknown_new P (Format rdf))
                 (take (unat (DataFormat.Length rdf)) rrest)))"
    by (rule impI) (rule ParseCounter_error_of_body)
  have cnt_none: "(snd (snd (ParseCounter P rdf rrest)) \<noteq> None \<longrightarrow>
        fst (ParseCounter P rdf rrest) = None)"
    using ParseCounter_error_no_counter [of P rdf rrest] by blast
  have flow_oob: "(len32 fdata < DataFormat.Length fdf \<longrightarrow>
        ParseFlow fdf fdata = Some (None, [], Some ErrOutOfBounds))"
    by (simp add: ParseFlow_out_of_bounds)
  have flow_body: "(\<not> len32 fdata < DataFormat.Length fdf \<longrightarrow>
        map_option (\<lambda>r. snd (snd r)) (ParseFlow fdf fdata) =
          (if Format fdf = SampledHeaderType then
             map_option snd (SampledHeader_Parse SampledHeader_zero
                               (take (unat (DataFormat.Length fdf)) fdata))
           else if Format fdf = SampledIPV4Type then
             Some (snd (SampledIPV4_Parse SampledIPV4_zero
                          (take (unat (DataFormat.Length fdf)) fdata)))
           else if Format fdf = SampledIPV6Type then
             Some (snd (SampledIPV6_Parse SampledIPV6_zero
                          (take (unat (DataFormat.Length fdf)) fdata)))
           else Some None))"
    by (rule impI) (rule ParseFlow_error_of_body)
  have flow_none: "(ParseFlow fdf fdata = Some (fl, frest, Some e) \<longrightarrow> fl = None)"
    using ParseFlow_error_no_flow [of fdf fdata fl frest e] by blast
  have v4_err: "snd (SampledIPV4_Parse sia fbody) = (if length fbody < 32 then Some ErrTooShort else None)"
    by (simp add: SampledIPV4_Parse_def)
  have v6_err: "snd (SampledIPV6_Parse sib fbody) = (if length fbody < 56 then Some ErrTooShort else None)"
    by (simp add: SampledIPV6_Parse_def)
  have sh_short: "(length fbody < 16 \<longrightarrow>
        SampledHeader_Parse sh fbody = Some (sh, Some ErrTooShort))"
    by (simp add: SampledHeader_Parse_def)
  have sh_oob: "(16 \<le> length fbody \<and> len32 (drop 16 fbody) < Uint32 (take 4 (drop 12 fbody)) \<longrightarrow>
        map_option snd (SampledHeader_Parse sh fbody) = Some (Some ErrOutOfBounds))"
    by (simp add: SampledHeader_Parse_def Let_def reslice_def)
  from shape env smp step smp_oob body nosample cs_err rec_env rec_cnt rec_step entry rd_short rd_oob cse_err cnt_oob cnt_body cnt_none flow_oob flow_body flow_none v4_err v6_err sh_short sh_oob
  show ?thesis by (intro conjI)
qed

text \<open>
  On the second example sequence the record envelope inside the second sample declares
  four bytes that are not there: the envelope reader's \<^verbatim>\<open>ErrOutOfBounds\<close> is the error
  of the record loop, of \<^verbatim>\<open>CounterSamples.Parse\<close>, of \<^verbatim>\<open>ParseSample\<close> and of
  \<^verbatim>\<open>ParseSamples\<close>, which returns the nil slice although the first iteration
  succeeded. The other cases are on smaller buffers: a record body of two bytes that the
  record decoder refuses, bodies that exceed the buffer at the record dispatch of
  counters and of flows, and flow record bodies below the fixed sizes.
\<close>

theorem ParseSamples_error_propagation_witness:
  "ParseSamples ex_decoders (Header_zero\<lparr>NumSamples := 2\<rparr>) ex_truncated_record
     = (None, Some ErrOutOfBounds)
   \<and> (0 :: uint32) < 2 \<and> (1 :: uint32) < 2
   \<and> DataFormat_Parse DataFormat_zero ex_truncated_record
     = (\<lparr>Format = 9, Length = 2\<rparr>, drop 8 ex_truncated_record, None)
   \<and> ParseSample ex_decoders \<lparr>Format = 9, Length = 2\<rparr> (drop 8 ex_truncated_record)
     = (None, drop 10 ex_truncated_record, None)
   \<and> DataFormat_Parse DataFormat_zero (drop 10 ex_truncated_record)
     = (\<lparr>Format = 2, Length = 20\<rparr>, drop 18 ex_truncated_record, None)
   \<and> \<not> len32 (drop 18 ex_truncated_record) < 20
   \<and> DataFormat_Parse DataFormat_zero (drop 30 ex_truncated_record)
     = (\<lparr>Format = 1, Length = 4\<rparr>, [], Some ErrOutOfBounds)
   \<and> snd (Records_loop ex_decoders 1 0 (drop 30 ex_truncated_record) []) = Some ErrOutOfBounds
   \<and> snd (CounterSamples_Parse ex_decoders CounterSamples_zero (drop 18 ex_truncated_record))
     = Some ErrOutOfBounds
   \<and> ParseSample ex_decoders \<lparr>Format = 2, Length = 20\<rparr> (drop 18 ex_truncated_record)
     = (None, [], Some ErrOutOfBounds)
   \<and> ParseSamples_loop ex_decoders 2 1 (drop 10 ex_truncated_record) [None]
     = (None, Some ErrOutOfBounds)
   \<and> ParseSamples_loop ex_decoders 2 0 ex_truncated_record []
     = ParseSamples_loop ex_decoders 2 1 (drop 10 ex_truncated_record) [None]
   \<and> DataFormat_Parse DataFormat_zero [0, 0, 0, 2, 0, 0, 0, 20]
     = (\<lparr>Format = 2, Length = 20\<rparr>, [], Some ErrOutOfBounds)
   \<and> ParseSamples_loop ex_decoders 1 0 [0, 0, 0, 2, 0, 0, 0, 20] [] = (None, Some ErrOutOfBounds)
   \<and> len32 [] < (20 :: uint32)
   \<and> ParseSample ex_decoders \<lparr>Format = 2, Length = 20\<rparr> [] = (None, [], Some ErrOutOfBounds)
   \<and> DataFormat_Parse DataFormat_zero [0, 0, 0, 1, 0, 0, 0, 2, 1, 2]
     = (\<lparr>Format = 1, Length = 2\<rparr>, [1, 2], None)
   \<and> ParseCounter ex_decoders \<lparr>Format = 1, Length = 2\<rparr> [1, 2] = (None, [], Some ErrTooShort)
   \<and> snd (Records_loop ex_decoders 1 0 [0, 0, 0, 1, 0, 0, 0, 2, 1, 2] []) = Some ErrTooShort
   \<and> DataFormat_Parse DataFormat_zero ex_counter_record
     = (\<lparr>Format = 1, Length = 4\<rparr>, [1, 2, 3, 4, 9], None)
   \<and> ParseCounter ex_decoders \<lparr>Format = 1, Length = 4\<rparr> [1, 2, 3, 4, 9]
     = (Some [1, 2, 3, 4], [9], None)
   \<and> Records_loop ex_decoders 1 0 ex_counter_record []
     = Records_loop ex_decoders 1 1 [9] [Some [1, 2, 3, 4]]
   \<and> DataFormat_Parse DataFormat_zero [0, 0, 0] = (DataFormat_zero, [], Some ErrTooShort)
   \<and> len32 (drop 8 [0, 0, 0, 2, 0, 0, 0, 20]) < Uint32 (take 4 (drop 4 [0, 0, 0, 2, 0, 0, 0, 20]))
   \<and> len32 [] < (4 :: uint32)
   \<and> ParseCounter ex_decoders \<lparr>Format = 1, Length = 4\<rparr> [] = (None, [], Some ErrOutOfBounds)
   \<and> \<not> len32 [1, 2] < (2 :: uint32)
   \<and> Counter_Parse ex_decoders (IfCounter_zero ex_decoders) [1, 2] = ([], Some ErrTooShort)
   \<and> snd (snd (ParseCounter ex_decoders \<lparr>Format = 1, Length = 2\<rparr> [1, 2])) = Some ErrTooShort
   \<and> fst (ParseCounter ex_decoders \<lparr>Format = 1, Length = 2\<rparr> [1, 2]) = None
   \<and> len32 [1, 2, 3, 4, 5] < (40 :: uint32)
   \<and> ParseFlow \<lparr>Format = 3, Length = 40\<rparr> [1, 2, 3, 4, 5] = Some (None, [], Some ErrOutOfBounds)
   \<and> \<not> len32 [1, 2, 3, 4, 5] < (4 :: uint32)
   \<and> snd (SampledIPV4_Parse SampledIPV4_zero [1, 2, 3, 4]) = Some ErrTooShort
   \<and> snd (SampledIPV6_Parse SampledIPV6_zero [1, 2, 3, 4]) = Some ErrTooShort
   \<and> ParseFlow \<lparr>Format = 3, Length = 4\<rparr> [1, 2, 3, 4, 5] = Some (None, [], Some ErrTooShort)
   \<and> SampledHeader_Parse SampledHeader_zero [1, 2, 3, 4] = Some (SampledHeader_zero, Some ErrTooShort)
   \<and> 16 \<le> length (replicate 12 (0 :: byte) @ [0, 0, 0, 9])
   \<and> map_option snd (SampledHeader_Parse SampledHeader_zero (replicate 12 0 @ [0, 0, 0, 9]))
     = Some (Some ErrOutOfBounds)
   \<and> snd (CountersSampleExpanded_Parse ex_decoders CountersSampleExpanded_zero []) = Some ErrTooShort"
  using ParseSamples_error_propagation [where P = ex_decoders and h = "Header_zero\<lparr>NumSamples := 2\<rparr>"
      and data = ex_truncated_record and i = 1 and n = 2
      and buf = "drop 10 ex_truncated_record"
      and df = "\<lparr>Format = 2, Length = 20\<rparr>"
      and rest = "drop 18 ex_truncated_record" and e = ErrOutOfBounds and acc = "[None]"
      and s = None and rest' = "[]" and cs = CounterSamples_zero
      and body = "drop 18 ex_truncated_record" and cse = CountersSampleExpanded_zero
      and j = 0 and m = 1 and rbuf = "drop 30 ex_truncated_record"
      and rdf = "\<lparr>Format = 1, Length = 4\<rparr>" and rrest = "[]" and Recs = "[]"
      and c = None and rrest' = "[]" and fdf = "\<lparr>Format = 3, Length = 4\<rparr>"
      and fdata = "[1, 2, 3, 4, 5]" and fl = None and frest = "[]"
      and edf = DataFormat_zero and ebuf = "[0, 0, 0]" and sia = SampledIPV4_zero
      and sib = SampledIPV6_zero and sh = SampledHeader_zero and fbody = "[1, 2, 3, 4]"]
    ParseSamples_error_propagation [where P = ex_decoders and h = "Header_zero\<lparr>NumSamples := 2\<rparr>"
      and data = ex_truncated_record and i = 0 and n = 2 and buf = ex_truncated_record
      and df = "\<lparr>Format = 9, Length = 2\<rparr>"
      and rest = "drop 8 ex_truncated_record" and e = ErrOutOfBounds and acc = "[]"
      and s = None and rest' = "drop 10 ex_truncated_record" and cs = CounterSamples_zero
      and body = "[]" and cse = CountersSampleExpanded_zero and j = 0 and m = 1
      and rbuf = ex_counter_record and rdf = "\<lparr>Format = 1, Length = 4\<rparr>"
      and rrest = "[1, 2, 3, 4, 9]" and Recs = "[]" and c = "Some [1, 2, 3, 4]"
      and rrest' = "[9]" and fdf = "\<lparr>Format = 3, Length = 40\<rparr>"
      and fdata = "[1, 2, 3, 4, 5]" and fl = None and frest = "[]"
      and edf = DataFormat_zero and ebuf = "[0, 0, 0, 2, 0, 0, 0, 20]"
      and sia = SampledIPV4_zero and sib = SampledIPV6_zero and sh = SampledHeader_zero
      and fbody = "replicate 12 0 @ [0, 0, 0, 9]"]
    ParseSamples_error_propagation [where P = ex_decoders and h = "Header_zero\<lparr>NumSamples := 2\<rparr>"
      and data = ex_truncated_record and i = 0 and n = 1
      and buf = "[0, 0, 0, 2, 0, 0, 0, 20]"
      and df = "\<lparr>Format = 2, Length = 20\<rparr>" and rest = "[]"
      and e = ErrOutOfBounds and acc = "[]" and s = None and rest' = "[]"
      and cs = CounterSamples_zero and body = "[]" and cse = CountersSampleExpanded_zero
      and j = 0 and m = 1 and rbuf = "[]" and rdf = DataFormat_zero and rrest = "[]"
      and Recs = "[]" and c = None and rrest' = "[]" and fdf = DataFormat_zero
      and fdata = "[]" and fl = None and frest = "[]" and edf = DataFormat_zero
      and ebuf = "[0, 0, 0]" and sia = SampledIPV4_zero and sib = SampledIPV6_zero
      and sh = SampledHeader_zero and fbody = "[]"]
    ParseSamples_error_propagation [where P = ex_decoders and h = "Header_zero\<lparr>NumSamples := 2\<rparr>"
      and data = ex_truncated_record and i = 0 and n = 1 and buf = "[]"
      and df = DataFormat_zero and rest = "[]" and e = ErrTooShort and acc = "[]"
      and s = None and rest' = "[]" and cs = CounterSamples_zero and body = "[]"
      and cse = CountersSampleExpanded_zero and j = 0 and m = 1
      and rbuf = "[0, 0, 0, 1, 0, 0, 0, 2, 1, 2]"
      and rdf = "\<lparr>Format = 1, Length = 2\<rparr>" and rrest = "[1, 2]"
      and Recs = "[]" and c = None and rrest' = "[]"
      and fdf = "\<lparr>Format = 3, Length = 4\<rparr>" and fdata = "[1, 2, 3, 4, 5]"
      and fl = None and frest = "[]" and edf = DataFormat_zero and ebuf = "[0, 0, 0]"
      and sia = SampledIPV4_zero and sib = SampledIPV6_zero and sh = SampledHeader_zero
      and fbody = "[]"]
  by (simp add: decode_eval ex_truncated_record_def ex_counter_record_def ParseFlow_def
        Flow_Parse_def SampledIPV4_Parse_def SampledIPV6_Parse_def SampledHeader_Parse_def
        SampledHeader_zero_def SampledIPV4_zero_def SampledIPV6_zero_def SampledHeaderType_def
        SampledIPV4Type_def SampledIPV6Type_def)

subsection \<open>Every iteration consumes input\<close>

text \<open>
  C9: every function of the decoder is total; the three loops are defined by recursion
  on the loop counter, which terminates since the counter rises to its bound. Moreover,
  an iteration of a loop that returns no error (the envelope reader followed by
  \<^verbatim>\<open>ParseSample\<close> in the top-level loop, by \<^verbatim>\<open>ParseCounter\<close> in the loops of
  \<^verbatim>\<open>CounterSamples.Parse\<close> and \<^verbatim>\<open>CountersSampleExpanded.Parse\<close>) leaves the buffer
  without its first \<open>8 + Length\<close> bytes, which the buffer has: at least the 8 bytes of
  the prefix, no more than available, and the rest is strictly shorter. Hence a decode
  without error has run no more iterations than the buffer has room for: 8 bytes for each
  of the \<^verbatim>\<open>NumSamples\<close> samples, and 8 bytes for each record behind the 12 or 16
  bytes of the sample's fixed fields; a count beyond that ends in an error.
\<close>

theorem decode_loops_consume_input:
  "(DataFormat_Parse h buf = (df, rest, None) \<and> ParseSample P df rest = (s, rest', None) \<longrightarrow>
      rest' = drop (8 + unat (DataFormat.Length df)) buf
      \<and> 8 + unat (DataFormat.Length df) \<le> length buf \<and> length rest' < length buf)
   \<and> (DataFormat_Parse h buf = (df, rest, None) \<and> ParseCounter P df rest = (c, rest', None) \<longrightarrow>
      rest' = drop (8 + unat (DataFormat.Length df)) buf
      \<and> 8 + unat (DataFormat.Length df) \<le> length buf \<and> length rest' < length buf)
   \<and> (ParseSamples P hdr data = (Some samples, None) \<longrightarrow>
      length samples = unat (NumSamples hdr) \<and> 8 * unat (NumSamples hdr) \<le> length data)
   \<and> (snd (CounterSamples_Parse P cs body) = None \<longrightarrow>
      12 + 8 * unat (Uint32 (take 4 (drop 8 body))) \<le> length body)
   \<and> (snd (CountersSampleExpanded_Parse P cse body) = None \<longrightarrow>
      16 + 8 * unat (Uint32 (take 4 (drop 12 body))) \<le> length body)"
proof -
  have a: "DataFormat_Parse h buf = (df, rest, None) \<and> ParseSample P df rest = (s, rest', None) \<longrightarrow>
      rest' = drop (8 + unat (DataFormat.Length df)) buf
      \<and> 8 + unat (DataFormat.Length df) \<le> length buf \<and> length rest' < length buf"
    using sample_iteration_consumes [of h buf df rest P s rest'] by auto
  have b: "DataFormat_Parse h buf = (df, rest, None) \<and> ParseCounter P df rest = (c, rest', None) \<longrightarrow>
      rest' = drop (8 + unat (DataFormat.Length df)) buf
      \<and> 8 + unat (DataFormat.Length df) \<le> length buf \<and> length rest' < length buf"
    using counter_iteration_consumes [of h buf df rest P c rest'] by auto
  have c: "ParseSamples P hdr data = (Some samples, None) \<longrightarrow>
      length samples = unat (NumSamples hdr) \<and> 8 * unat (NumSamples hdr) \<le> length data"
    using ParseSamples_loop_bound [of P "NumSamples hdr" 0 data "[]" samples]
    by (simp add: ParseSamples_def)
  have d: "snd (CounterSamples_Parse P cs body) = None \<longrightarrow>
      12 + 8 * unat (Uint32 (take 4 (drop 8 body))) \<le> length body"
  proof
    assume ok: "snd (CounterSamples_Parse P cs body) = None"
    then have l: "12 \<le> length body" by (simp add: CounterSamples_Parse_error split: if_splits)
    with ok have "snd (Records_loop P (Uint32 (take 4 (drop 8 body))) 0 (drop 12 body)
                  (CounterSamples.Records cs)) = None"
      by (simp add: CounterSamples_Parse_error)
    from Records_loop_bound [OF this] l
    show "12 + 8 * unat (Uint32 (take 4 (drop 8 body))) \<le> length body" by (simp, arith)
  qed
  have e: "snd (CountersSampleExpanded_Parse P cse body) = None \<longrightarrow>
      16 + 8 * unat (Uint32 (take 4 (drop 12 body))) \<le> length body"
  proof
    assume ok: "snd (CountersSampleExpanded_Parse P cse body) = None"
    then have l: "16 \<le> length body"
      by (simp add: CountersSampleExpanded_Parse_error split: if_splits)
    with ok have "snd (Records_loop P (Uint32 (take 4 (drop 12 body))) 0 (drop 16 body)
                  (CountersSampleExpanded.Records cse)) = None"
      by (simp add: CountersSampleExpanded_Parse_error)
    from Records_loop_bound [OF this] l
    show "16 + 8 * unat (Uint32 (take 4 (drop 12 body))) \<le> length body" by (simp, arith)
  qed
  from a b c d e show ?thesis by (intro conjI)
qed

text \<open>
  On the first example sequence, the example record and the two example bodies.
\<close>

theorem decode_loops_consume_input_witness:
  "DataFormat_Parse DataFormat_zero ex_unknown_then_counters
     = (\<lparr>Format = 9, Length = 2\<rparr>, drop 8 ex_unknown_then_counters, None)
   \<and> ParseSample ex_decoders \<lparr>Format = 9, Length = 2\<rparr> (drop 8 ex_unknown_then_counters)
     = (None, drop 10 ex_unknown_then_counters, None)
   \<and> length (drop 10 ex_unknown_then_counters) < length ex_unknown_then_counters
   \<and> DataFormat_Parse DataFormat_zero ex_counter_record
     = (\<lparr>Format = 1, Length = 4\<rparr>, [1, 2, 3, 4, 9], None)
   \<and> ParseCounter ex_decoders \<lparr>Format = 1, Length = 4\<rparr> [1, 2, 3, 4, 9]
     = (Some [1, 2, 3, 4], [9], None)
   \<and> length [9 :: byte] < length ex_counter_record
   \<and> ParseSamples ex_decoders (Header_zero\<lparr>NumSamples := 2\<rparr>) ex_unknown_then_counters
     = (Some [None, Some (Sample_CounterSamples
                \<lparr>CounterSamples.SequenceNumber = 1, CounterSamples.SourceId = 2,
                 CounterSamples.Records = []\<rparr>)], None)
   \<and> 8 * unat (NumSamples (Header_zero\<lparr>NumSamples := 2\<rparr>)) \<le> length ex_unknown_then_counters
   \<and> CounterSamples_Parse ex_decoders CounterSamples_zero ex_counters_body
     = (\<lparr>CounterSamples.SequenceNumber = 1, CounterSamples.SourceId = 2,
         CounterSamples.Records = [Some [1, 2, 3, 4]]\<rparr>, None)
   \<and> 12 + 8 * unat (Uint32 (take 4 (drop 8 ex_counters_body))) \<le> length ex_counters_body
   \<and> snd (CountersSampleExpanded_Parse ex_decoders CountersSampleExpanded_zero ex_expanded_body)
     = None
   \<and> 16 + 8 * unat (Uint32 (take 4 (drop 12 ex_expanded_body))) \<le> length ex_expanded_body"
  using decode_loops_consume_input [where P = ex_decoders and h = DataFormat_zero and buf = ex_unknown_then_counters
      and df = "\<lparr>Format = 9, Length = 2\<rparr>" and rest = "drop 8 ex_unknown_then_counters"
      and s = None and rest' = "drop 10 ex_unknown_then_counters" and c = None
      and hdr = "Header_zero\<lparr>NumSamples := 2\<rparr>" and data = ex_unknown_then_counters
      and samples = "[None, Some (Sample_CounterSamples
                \<lparr>CounterSamples.SequenceNumber = 1, CounterSamples.SourceId = 2,
                 CounterSamples.Records = []\<rparr>)]"
      and cs = CounterSamples_zero and body = ex_counters_body
      and cse = CountersSampleExpanded_zero]
    decode_loops_consume_input [where P = ex_decoders and h = DataFormat_zero and buf = ex_counter_record
      and df = "\<lparr>Format = 1, Length = 4\<rparr>" and rest = "[1, 2, 3, 4, 9]"
      and s = None and c = "Some [1, 2, 3, 4]" and rest' = "[9]"
      and hdr = "Header_zero\<lparr>NumSamples := 2\<rparr>" and data = ex_unknown_then_counters
      and samples = "[]" and cs = CounterSamples_zero
      and cse = CountersSampleExpanded_zero and body = ex_expanded_body]
  by (simp add: decode_eval ex_unknown_then_counters_def ex_counter_record_def ex_counters_body_def
        ex_expanded_body_def)

subsection \<open>No decode yields a CountersSampleExpanded\<close>

text \<open>
  What \<^verbatim>\<open>ParseSample\<close> never returns, no sample list of \<^verbatim>\<open>ParseSamples\<close> holds.
\<close>

lemma ParseSamples_loop_never_expanded:
  "ParseSamples_loop P n i buf acc = (Some xs, None) \<Longrightarrow>
   Some (Sample_CountersSampleExpanded cs) \<notin> set acc \<Longrightarrow>
   Some (Sample_CountersSampleExpanded cs) \<notin> set xs"
proof (induction "unat n - unat i" arbitrary: i buf acc)
  case 0
  then have "\<not> i < n" by (simp add: word_less_nat_alt)
  with 0 show ?case by (simp add: ParseSamples_loop_done)
next
  case (Suc k)
  then have lt: "i < n" by (simp add: word_less_nat_alt)
  obtain df data e1 where env: "DataFormat_Parse DataFormat_zero buf = (df, data, e1)"
    by (metis prod_cases3)
  obtain s rest e2 where ps: "ParseSample P df data = (s, rest, e2)"
    by (metis prod_cases3)
  from Suc.prems(1) lt env have e1: "e1 = None"
    by (cases e1) (simp_all add: ParseSamples_loop_env_error)
  from Suc.prems(1) lt env ps e1 have e2: "e2 = None"
    by (cases e2) (simp_all add: ParseSamples_loop_sample_error)
  from lt env ps e1 e2
  have step: "ParseSamples_loop P n i buf acc = ParseSamples_loop P n (i + 1) rest (acc @ [s])"
    by (simp add: ParseSamples_loop_step)
  have k: "k = unat n - unat (i + 1)"
    using Suc.hyps(2) loop_measure_Suc [OF lt] by simp
  from ps ParseSample_never_expanded [of P df data cs]
  have "s \<noteq> Some (Sample_CountersSampleExpanded cs)" by auto
  with Suc.prems(2) have "Some (Sample_CountersSampleExpanded cs) \<notin> set (acc @ [s])" by auto
  from Suc.hyps(1) [OF k _ this] Suc.prems(1) step show ?case by simp
qed

lemma ParseSamples_never_expanded:
  "ParseSamples P h data = (Some xs, None) \<Longrightarrow>
   Some (Sample_CountersSampleExpanded cs) \<notin> set xs"
  using ParseSamples_loop_never_expanded [of P "NumSamples h" 0 data "[]" xs cs]
  by (simp add: ParseSamples_def)

subsection \<open>The dispatcher of flow records does not panic\<close>

text \<open>
  The slice bound of \<^verbatim>\<open>SampledHeader.Parse\<close> wraps only on a buffer of \<open>2 ^ 32\<close> bytes
  or more. \<^verbatim>\<open>ParseFlow\<close> passes a body of \<open>Length\<close> bytes, which are fewer.
\<close>

lemma SampledHeader_Parse_no_panic:
  assumes "length data < 2 ^ 32"
  shows "SampledHeader_Parse sh data \<noteq> None"
proof (cases "length data < 16")
  case True
  then show ?thesis by (simp add: SampledHeader_Parse_def)
next
  case False
  define hl where "hl = Uint32 (reslice data 12 16)"
  show ?thesis
  proof (cases "len32 (drop 16 data) < hl")
    case True
    with False show ?thesis by (simp add: SampledHeader_Parse_def Let_def hl_def)
  next
    case nl: False
    then have "unat hl \<le> (length data - 16) mod 2 ^ 32" by (simp add: len32_less_iff)
    also have "\<dots> = length data - 16" using assms by simp
    finally have b: "unat hl + 16 < 2 ^ 32" using assms False by simp
    have "unat (16 + hl) = 16 + unat hl"
      using b by (simp add: unat_word_ariths)
    then have "\<not> unat (16 + hl) < 16" by simp
    with False nl show ?thesis by (simp add: SampledHeader_Parse_def Let_def hl_def)
  qed
qed

lemma ParseFlow_no_panic: "ParseFlow df data \<noteq> None"
proof -
  have "length (reslice data 0 (unat (DataFormat.Length df))) \<le> unat (DataFormat.Length df)"
    by (simp add: reslice_def)
  also have "\<dots> < 2 ^ 32" using unsigned_less [of "DataFormat.Length df"] by simp
  finally have "SampledHeader_Parse SampledHeader_zero
      (reslice data 0 (unat (DataFormat.Length df))) \<noteq> None"
    by (rule SampledHeader_Parse_no_panic)
  then show ?thesis
    by (auto simp: ParseFlow_def Let_def Flow_Parse_def split: prod.splits option.splits)
qed

end
